theory Spec2Isabelle
  imports Complex_Main
begin

section \<open>Instants and the Snap/Clamp engine (src/lib/timeline/snapping.ts)\<close>

text \<open>
  A JavaScript \<^verbatim>\<open>Date\<close> is the number of milliseconds since 1970-01-01T00:00:00Z; a valid
  one is an integer, and comparing two dates with \<^verbatim>\<open><\<close> compares these numbers.
  A Luxon \<^verbatim>\<open>DateTime\<close> made by \<^verbatim>\<open>fromJSDate\<close> reads the instant in the system zone; the
  zone's offset from UTC is a whole number of minutes, the parameter \<open>off\<close> below.
\<close>

type_synonym instant = int

definition SNAP_MINUTES :: int where
  "SNAP_MINUTES = 1"


text \<open>\<^verbatim>\<open>Math.round\<close>: the nearest integer, a half rounding towards plus infinity.\<close>

definition Math_round :: "rat \<Rightarrow> int" where
  "Math_round q = \<lfloor>q + 1 / 2\<rfloor>"

text \<open>\<^verbatim>\<open>dt.minute\<close>: the minute of the hour on the wall clock of the zone.\<close>

definition dt_minute :: "int \<Rightarrow> instant \<Rightarrow> int" where
  "dt_minute off t = ((t + off * 60000) div 60000) mod 60"

text \<open>
  \<^verbatim>\<open>dt.set({ minute: m, second: 0, millisecond: 0 })\<close>: the wall-clock hour is kept, the
  minute is replaced (a value of 60 or more carries into the hour), seconds and
  milliseconds are zero.
\<close>

definition dt_set_minute :: "int \<Rightarrow> instant \<Rightarrow> int \<Rightarrow> instant" where
  "dt_set_minute off t m =
     ((t + off * 60000) div 3600000) * 3600000 + m * 60000 - off * 60000"

definition snapToMinute :: "int \<Rightarrow> instant \<Rightarrow> int \<Rightarrow> instant" where
  "snapToMinute off date snapMinutes =
     (let minutes = dt_minute off date;
          snappedMinutes = Math_round (of_int minutes / of_int snapMinutes) * snapMinutes
      in dt_set_minute off date snappedMinutes)"

definition snapTimestamp :: "int \<Rightarrow> instant \<Rightarrow> int \<Rightarrow> instant" where
  "snapTimestamp off timestamp snapMinutes = snapToMinute off timestamp snapMinutes"






section \<open>History stack (src/lib/timeline/history)\<close>

text \<open>
  A batch is a list of patch operations; the history functions never look inside an
  operation, so the operation type is a parameter. \<^verbatim>\<open>maxSize\<close> is a JavaScript number;
  it is an integer here, negative values included.
\<close>

record 'op HistoryState =
  past :: "'op list list"
  future :: "'op list list"
  maxSize :: int

definition createHistory :: "int \<Rightarrow> 'op HistoryState" where
  "createHistory maxSize' = \<lparr>past = [], future = [], maxSize = maxSize'\<rparr>"

text \<open>\<^verbatim>\<open>Array.prototype.shift\<close>: removes the first element; on an empty array it does nothing.\<close>

definition shift :: "'a list \<Rightarrow> 'a list" where
  "shift xs = (case xs of [] \<Rightarrow> [] | _ # rest \<Rightarrow> rest)"

text \<open>
  The loop \<^verbatim>\<open>while (newPast.length > history.maxSize) newPast.shift()\<close>. With a negative
  bound it never ends: the array stays empty and longer than the bound. The value
  \<open>None\<close> stands for not returning.
\<close>

partial_function (option) trimToMaxSize :: "'a list \<Rightarrow> int \<Rightarrow> 'a list option" where
  "trimToMaxSize newPast m =
     (if int (length newPast) > m then trimToMaxSize (shift newPast) m else Some newPast)"

definition recordAction :: "'op HistoryState \<Rightarrow> 'op list \<Rightarrow> 'op HistoryState option" where
  "recordAction history patchOps =
     (case trimToMaxSize (past history @ [patchOps]) (maxSize history) of
        None \<Rightarrow> None
      | Some newPast \<Rightarrow> Some (history\<lparr>past := newPast, future := []\<rparr>))"

text \<open>\<^verbatim>\<open>undo\<close> and \<^verbatim>\<open>redo\<close> return the new history and the batch, \<open>None\<close> for \<^verbatim>\<open>null\<close>.\<close>

definition undo :: "'op HistoryState \<Rightarrow> 'op HistoryState \<times> 'op list option" where
  "undo history =
     (if length (past history) = 0 then (history, None)
      else
        let lastAction = past history ! (length (past history) - 1);
            newPast = take (length (past history) - 1) (past history);
            newFuture = lastAction # future history
        in (history\<lparr>past := newPast, future := newFuture\<rparr>, Some lastAction))"

definition redo :: "'op HistoryState \<Rightarrow> 'op HistoryState \<times> 'op list option" where
  "redo history =
     (if length (future history) = 0 then (history, None)
      else
        let nextAction = future history ! 0;
            newFuture = drop 1 (future history);
            newPast = past history @ [nextAction]
        in (history\<lparr>past := newPast, future := newFuture\<rparr>, Some nextAction))"

definition canUndo :: "'op HistoryState \<Rightarrow> bool" where
  "canUndo history \<longleftrightarrow> length (past history) > 0"

definition canRedo :: "'op HistoryState \<Rightarrow> bool" where
  "canRedo history \<longleftrightarrow> length (future history) > 0"

definition clearHistory :: "'op HistoryState \<Rightarrow> 'op HistoryState" where
  "clearHistory history = history\<lparr>past := [], future := []\<rparr>"

section \<open>Timeline types and patch operations (types/timeline)\<close>

record OwnerRef =
  or_id :: string
  or_type :: string
  or_displayName :: string

text \<open>
  An event as it travels in a patch operation. The reconciliation route reads
  \<^verbatim>\<open>category\<close>, \<^verbatim>\<open>assignedOwner\<close>, \<^verbatim>\<open>status\<close>, \<^verbatim>\<open>locked\<close> and \<^verbatim>\<open>notes\<close> as possibly absent
  (\<^verbatim>\<open>event.locked || false\<close>), and the dialog that adds an event sends none of them, so
  these fields are optional. An owner that is present is an \<^verbatim>\<open>OwnerRef\<close>, as the type
  declares. The ISO strings \<^verbatim>\<open>startUtc\<close> and \<^verbatim>\<open>endUtc\<close> are kept as the instants they
  denote.
\<close>

record TimelineEventItem =
  item_id :: string
  weddingId :: string
  title :: string
  startUtc :: instant
  endUtc :: instant
  laneId :: string
  category :: "string option"
  assignedOwner :: "OwnerRef option"
  status :: "string option"
  locked :: "bool option"
  item_notes :: "string option"

record TimelineLane =
  lane_id :: string
  lane_weddingId :: string
  lane_name :: string
  lane_laneType :: string
  lane_owner :: "OwnerRef option"
  lane_sortOrder :: int

datatype PatchOp =
    create_event TimelineEventItem
  | update_event_time string instant instant
  | update_event_lane string string
  | update_event_title string string
  | update_event_owner string OwnerRef
  | delete_event string
  | create_lane TimelineLane
  | update_lane string "string option" "OwnerRef option" "int option"
  | delete_lane string

section \<open>Draft reducer (src/lib/timeline/draft)\<close>

record DraftState =
  baseVersion :: int
  patchOps :: "PatchOp list"
  isDirty :: bool

definition createDraftState :: "int \<Rightarrow> DraftState" where
  "createDraftState baseVersion' = \<lparr>baseVersion = baseVersion', patchOps = [], isDirty = False\<rparr>"

definition addPatchOp :: "DraftState \<Rightarrow> PatchOp \<Rightarrow> DraftState" where
  "addPatchOp draft op = draft\<lparr>patchOps := patchOps draft @ [op], isDirty := True\<rparr>"

definition clearDraft :: "DraftState \<Rightarrow> DraftState" where
  "clearDraft draft = draft\<lparr>patchOps := [], isDirty := False\<rparr>"

definition resetDraft :: "int \<Rightarrow> DraftState" where
  "resetDraft newBaseVersion = createDraftState newBaseVersion"

text \<open>One turn of the loop of \<^verbatim>\<open>applyDraftToEvents\<close>: the \<^verbatim>\<open>switch\<close> on the operation.\<close>

fun applyDraftOpToEvents :: "TimelineEventItem list \<Rightarrow> PatchOp \<Rightarrow> TimelineEventItem list" where
  "applyDraftOpToEvents result (create_event event) = result @ [event]"
| "applyDraftOpToEvents result (update_event_time eventId startUtc' endUtc') =
     map (\<lambda>e. if item_id e = eventId then e\<lparr>startUtc := startUtc', endUtc := endUtc'\<rparr> else e) result"
| "applyDraftOpToEvents result (update_event_lane eventId laneId') =
     map (\<lambda>e. if item_id e = eventId then e\<lparr>laneId := laneId'\<rparr> else e) result"
| "applyDraftOpToEvents result (update_event_title eventId title') =
     map (\<lambda>e. if item_id e = eventId then e\<lparr>title := title'\<rparr> else e) result"
| "applyDraftOpToEvents result (update_event_owner eventId owner) =
     map (\<lambda>e. if item_id e = eventId then e\<lparr>assignedOwner := Some owner\<rparr> else e) result"
| "applyDraftOpToEvents result (delete_event eventId) =
     filter (\<lambda>e. item_id e \<noteq> eventId) result"
| "applyDraftOpToEvents result _ = result"

fun applyDraftToEvents :: "TimelineEventItem list \<Rightarrow> PatchOp list \<Rightarrow> TimelineEventItem list" where
  "applyDraftToEvents result [] = result"
| "applyDraftToEvents result (op # rest) = applyDraftToEvents (applyDraftOpToEvents result op) rest"

fun applyDraftOpToLanes :: "TimelineLane list \<Rightarrow> PatchOp \<Rightarrow> TimelineLane list" where
  "applyDraftOpToLanes result (create_lane lane) = result @ [lane]"
| "applyDraftOpToLanes result (update_lane laneId' name owner sortOrder) =
     map (\<lambda>l. if lane_id l \<noteq> laneId' then l
              else
                let l1 = (case name of None \<Rightarrow> l | Some n \<Rightarrow> l\<lparr>lane_name := n\<rparr>);
                    l2 = (case sortOrder of None \<Rightarrow> l1 | Some s \<Rightarrow> l1\<lparr>lane_sortOrder := s\<rparr>)
                in (case owner of None \<Rightarrow> l2 | Some ow \<Rightarrow> l2\<lparr>lane_owner := Some ow\<rparr>))
         result"
| "applyDraftOpToLanes result (delete_lane laneId') =
     filter (\<lambda>l. lane_id l \<noteq> laneId') result"
| "applyDraftOpToLanes result _ = result"

fun applyDraftToLanes :: "TimelineLane list \<Rightarrow> PatchOp list \<Rightarrow> TimelineLane list" where
  "applyDraftToLanes result [] = result"
| "applyDraftToLanes result (op # rest) = applyDraftToLanes (applyDraftOpToLanes result op) rest"

section \<open>Time-window calculator (src/lib/time.ts)\<close>

text \<open>
  The wedding date is the calendar date that \<^verbatim>\<open>DateTime.fromISO\<close> reads from a string
  such as \<^verbatim>\<open>2026-10-17\<close>; a string that holds no date of the calendar gives an invalid
  \<^verbatim>\<open>DateTime\<close>, as a date out of range does. The rules of a zone come from the IANA time
  zone database, which Luxon consults and which is no part of the repository: a zone is
  a parameter here, the function \<^verbatim>\<open>zone.offset(ts)\<close> that gives the offset from UTC, in
  minutes, in force at an instant. A name that the database does not know gives no
  zone, and an invalid \<^verbatim>\<open>DateTime\<close>. An invalid \<^verbatim>\<open>DateTime\<close> is \<open>None\<close>, and so is the
  \<^verbatim>\<open>null\<close> that its \<^verbatim>\<open>toISO()\<close> returns.
\<close>

record civil_date =
  cd_year :: int
  cd_month :: int
  cd_day :: int

type_synonym zone = "instant \<Rightarrow> int"

text \<open>A valid Luxon \<^verbatim>\<open>DateTime\<close> of a known zone: the instant \<^verbatim>\<open>ts\<close> and the offset \<^verbatim>\<open>o\<close>.\<close>

record DateTime =
  dt_ts :: instant
  dt_o :: int

definition TIMELINE_WINDOW_START_HOUR :: int where
  "TIMELINE_WINDOW_START_HOUR = 3"

definition TIMELINE_WINDOW_END_HOUR :: int where
  "TIMELINE_WINDOW_END_HOUR = 3"

text \<open>Days from 1970-01-01 to a date of the proleptic Gregorian calendar.\<close>

definition days_from_civil :: "civil_date \<Rightarrow> int" where
  "days_from_civil d =
     (let y = (if cd_month d \<le> 2 then cd_year d - 1 else cd_year d);
          era = y div 400;
          yoe = y - era * 400;
          mp = (if cd_month d > 2 then cd_month d - 3 else cd_month d + 9);
          doy = (153 * mp + 2) div 5 + cd_day d - 1;
          doe = yoe * 365 + yoe div 4 - yoe div 100 + doy
      in era * 146097 + doe - 719468)"

definition isLeapYear :: "int \<Rightarrow> bool" where
  "isLeapYear year \<longleftrightarrow> year mod 4 = 0 \<and> (year mod 100 \<noteq> 0 \<or> year mod 400 = 0)"

definition daysInMonth :: "int \<Rightarrow> int \<Rightarrow> int" where
  "daysInMonth year month =
     (if month = 2 then (if isLeapYear year then 29 else 28)
      else if month = 4 \<or> month = 6 \<or> month = 9 \<or> month = 11 then 30
      else 31)"

text \<open>Luxon's range check of a calendar date (\<^verbatim>\<open>hasInvalidGregorianData\<close>).\<close>

definition validGregorianDate :: "civil_date \<Rightarrow> bool" where
  "validGregorianDate d \<longleftrightarrow>
     1 \<le> cd_month d \<and> cd_month d \<le> 12
     \<and> 1 \<le> cd_day d \<and> cd_day d \<le> daysInMonth (cd_year d) (cd_month d)"

text \<open>
  Luxon's \<^verbatim>\<open>fixOffset\<close>: the instant of a wall-clock time (\<^verbatim>\<open>localTS\<close>, milliseconds on
  the wall clock) in a zone, from a first guess \<open>o\<close> of the offset. A wall-clock time
  that the zone skips is moved over the gap.
\<close>

definition fixOffset :: "int \<Rightarrow> int \<Rightarrow> zone \<Rightarrow> instant \<times> int" where
  "fixOffset localTS o1 tz =
     (let utcGuess = localTS - o1 * 60 * 1000;
          o2 = tz utcGuess
      in if o1 = o2 then (utcGuess, o1)
         else
           let utcGuess = utcGuess - (o2 - o1) * 60 * 1000;
               o3 = tz utcGuess
           in if o2 = o3 then (utcGuess, o2)
              else (localTS - min o2 o3 * 60 * 1000, max o2 o3))"

text \<open>The wall clock of a \<^verbatim>\<open>DateTime\<close>, in milliseconds (its fields \<^verbatim>\<open>c\<close>, read as one number).\<close>

definition dt_local :: "DateTime \<Rightarrow> int" where
  "dt_local dt = dt_ts dt + dt_o dt * 60 * 1000"

text \<open>
  \<^verbatim>\<open>DateTime.fromISO(date, { zone })\<close> for a calendar date: midnight on the wall clock of
  that date. The first guess of the offset is the offset of the zone now.
\<close>

definition DateTime_fromISO :: "instant \<Rightarrow> zone option \<Rightarrow> civil_date \<Rightarrow> DateTime option" where
  "DateTime_fromISO now zone' d =
     (case zone' of
        None \<Rightarrow> None
      | Some tz \<Rightarrow>
          if \<not> validGregorianDate d then None
          else
            let offsetProvis = tz now;
                (tsFinal, offsetFinal) = fixOffset (days_from_civil d * 86400000) offsetProvis tz
            in Some \<lparr>dt_ts = tsFinal, dt_o = offsetFinal\<rparr>)"

text \<open>
  \<^verbatim>\<open>dt.set({ hour, minute: 0, second: 0, millisecond: 0 })\<close>: year, month and day of the
  wall clock are kept, the time of day is replaced.
\<close>

definition DateTime_set_hour :: "zone \<Rightarrow> DateTime \<Rightarrow> int \<Rightarrow> DateTime" where
  "DateTime_set_hour tz dt hour =
     (let localTS = (dt_local dt div 86400000) * 86400000 + hour * 3600000;
          (ts, o1) = fixOffset localTS (dt_o dt) tz
      in \<lparr>dt_ts = ts, dt_o = o1\<rparr>)"

text \<open>\<^verbatim>\<open>dt.plus({ days })\<close>: the days are added on the wall clock of the \<^verbatim>\<open>DateTime\<close>.\<close>

definition DateTime_plus_days :: "zone \<Rightarrow> DateTime \<Rightarrow> int \<Rightarrow> DateTime" where
  "DateTime_plus_days tz dt days =
     (let localTS = dt_local dt + days * 86400000;
          (ts, o1) = fixOffset localTS (dt_o dt) tz
      in \<lparr>dt_ts = ts, dt_o = o1\<rparr>)"

record timeline_window =
  windowStartLocal :: "DateTime option"
  windowEndLocal :: "DateTime option"
  windowStartUtc :: "instant option"
  windowEndUtc :: "instant option"

text \<open>
  \<^verbatim>\<open>getTimelineWindow\<close>: \<open>now\<close> is the clock that \<^verbatim>\<open>fromISO\<close> reads, \<open>venueTimezone\<close> the
  zone that the database gives for the name.
\<close>

definition getTimelineWindow :: "instant \<Rightarrow> zone option \<Rightarrow> civil_date \<Rightarrow> timeline_window" where
  "getTimelineWindow now venueTimezone weddingDate =
     (case venueTimezone of
        None \<Rightarrow> \<lparr>windowStartLocal = None, windowEndLocal = None,
                  windowStartUtc = None, windowEndUtc = None\<rparr>
      | Some tz \<Rightarrow>
          let weddingDt = DateTime_fromISO now (Some tz) weddingDate;
              windowStartLocal' =
                map_option (\<lambda>dt. DateTime_set_hour tz dt TIMELINE_WINDOW_START_HOUR) weddingDt;
              windowEndLocal' = map_option (\<lambda>dt. DateTime_plus_days tz dt 1) windowStartLocal'
          in \<lparr>windowStartLocal = windowStartLocal',
              windowEndLocal = windowEndLocal',
              windowStartUtc = map_option dt_ts windowStartLocal',
              windowEndUtc = map_option dt_ts windowEndLocal'\<rparr>)"

text \<open>
  The instant written \<^verbatim>\<open>Y-M-DTh:mm:00Z\<close> in ISO 8601; read on a wall clock, the wall-clock
  time \<^verbatim>\<open>Y-M-DTh:mm:00\<close>.
\<close>

definition iso_instant :: "civil_date \<Rightarrow> int \<Rightarrow> int \<Rightarrow> instant" where
  "iso_instant d h m = days_from_civil d * 86400000 + h * 3600000 + m * 60000"

text \<open>
  The rules of the IANA zone America/New_York for the instants of the year 2026 (tz
  database: daylight time, UTC-4, from 8 March 2026 07:00 UTC to 1 November 2026 06:00
  UTC; standard time, UTC-5, before and after).
\<close>

definition America_New_York_2026 :: zone where
  "America_New_York_2026 t =
     (if iso_instant \<lparr>cd_year = 2026, cd_month = 3, cd_day = 8\<rparr> 7 0 \<le> t
         \<and> t < iso_instant \<lparr>cd_year = 2026, cd_month = 11, cd_day = 1\<rparr> 6 0
      then - 240 else - 300)"

section \<open>Canonical state: the tables behind the Prisma client\<close>

text \<open>
  The tables are those of the migration, without the bookkeeping columns
  \<^verbatim>\<open>createdAt\<close> and \<^verbatim>\<open>updatedAt\<close>. A table is the list of its rows; \<^verbatim>\<open>id\<close> is the primary
  key. The Prisma calls of the route are modelled with the failures Prisma raises:
  a validation error, before the database is touched, when the data hold an object
  where the column is a text; a unique-constraint violation on \<^verbatim>\<open>create\<close>; a
  foreign-key violation when a referenced row is absent; and record-not-found for
  \<^verbatim>\<open>update\<close> and \<^verbatim>\<open>delete\<close> of an absent key. The \<^verbatim>\<open>where\<close> of \<^verbatim>\<open>update\<close> and \<^verbatim>\<open>delete\<close> names
  the \<^verbatim>\<open>id\<close> alone, so the row may belong to any wedding. Every call is committed on its
  own: the route opens no transaction.
\<close>

record wedding_row =
  w_id :: string
  w_weddingDate :: civil_date
  w_venueTimezone :: string
  w_timelineVersion :: int

record lane_row =
  l_id :: string
  l_weddingId :: string
  l_name :: string
  l_type :: string
  l_ownerType :: string
  l_ownerId :: string
  l_ownerName :: string
  l_sortOrder :: int

record event_row =
  e_id :: string
  e_weddingId :: string
  e_laneId :: string
  e_title :: string
  e_startUtc :: instant
  e_endUtc :: instant
  e_category :: string
  e_assignedOwnerType :: string
  e_assignedOwnerId :: string
  e_assignedOwnerName :: string
  e_status :: string
  e_locked :: bool
  e_notes :: "string option"

record band_row =
  b_id :: string
  b_weddingId :: string
  b_bandType :: string
  b_startUtc :: instant
  b_endUtc :: instant
  b_label :: string

record db =
  weddings :: "wedding_row list"
  lanes :: "lane_row list"
  events :: "event_row list"
  bands :: "band_row list"

datatype prisma_error =
    ValidationError
  | UniqueConstraintFailed
  | ForeignKeyConstraintFailed
  | RecordNotFound

text \<open>The result of a call that may throw: the state it leaves, and the error thrown if any.\<close>

type_synonym outcome = "db \<times> prisma_error option"

definition wedding_findUnique :: "db \<Rightarrow> string \<Rightarrow> wedding_row option" where
  "wedding_findUnique d wid = find (\<lambda>w. w_id w = wid) (weddings d)"

definition wedding_increment_version :: "db \<Rightarrow> string \<Rightarrow> outcome" where
  "wedding_increment_version d wid =
     (if wid \<in> set (map w_id (weddings d))
      then (d\<lparr>weddings := map (\<lambda>w. if w_id w = wid
                                     then w\<lparr>w_timelineVersion := w_timelineVersion w + 1\<rparr>
                                     else w) (weddings d)\<rparr>, None)
      else (d, Some RecordNotFound))"

definition timelineEvent_create :: "db \<Rightarrow> event_row \<Rightarrow> outcome" where
  "timelineEvent_create d row =
     (if e_id row \<in> set (map e_id (events d)) then (d, Some UniqueConstraintFailed)
      else if e_weddingId row \<in> set (map w_id (weddings d))
              \<and> e_laneId row \<in> set (map l_id (lanes d))
           then (d\<lparr>events := events d @ [row]\<rparr>, None)
      else (d, Some ForeignKeyConstraintFailed))"

text \<open>
  \<^verbatim>\<open>prisma.timelineEvent.update({ where: { id }, data })\<close> with \<^verbatim>\<open>data\<close> that leaves
  \<^verbatim>\<open>laneId\<close> alone: \<open>upd\<close> is the change that \<^verbatim>\<open>data\<close> makes to the row. The foreign key
  is checked only when the statement sets the column, which is the second function.
\<close>

definition timelineEvent_update :: "db \<Rightarrow> string \<Rightarrow> (event_row \<Rightarrow> event_row) \<Rightarrow> outcome" where
  "timelineEvent_update d eid upd =
     (if eid \<notin> set (map e_id (events d)) then (d, Some RecordNotFound)
      else (d\<lparr>events := map (\<lambda>e. if e_id e = eid then upd e else e) (events d)\<rparr>, None))"

definition timelineEvent_update_laneId :: "db \<Rightarrow> string \<Rightarrow> string \<Rightarrow> outcome" where
  "timelineEvent_update_laneId d eid lid =
     (if eid \<notin> set (map e_id (events d)) then (d, Some RecordNotFound)
      else if lid \<in> set (map l_id (lanes d))
           then (d\<lparr>events := map (\<lambda>e. if e_id e = eid then e\<lparr>e_laneId := lid\<rparr> else e) (events d)\<rparr>,
                 None)
      else (d, Some ForeignKeyConstraintFailed))"

definition timelineEvent_delete :: "db \<Rightarrow> string \<Rightarrow> outcome" where
  "timelineEvent_delete d eid =
     (if eid \<notin> set (map e_id (events d)) then (d, Some RecordNotFound)
      else (d\<lparr>events := filter (\<lambda>e. e_id e \<noteq> eid) (events d)\<rparr>, None))"

definition timelineEvent_deleteMany_lane :: "db \<Rightarrow> string \<Rightarrow> outcome" where
  "timelineEvent_deleteMany_lane d lid =
     (d\<lparr>events := filter (\<lambda>e. e_laneId e \<noteq> lid) (events d)\<rparr>, None)"

definition timelineLane_create :: "db \<Rightarrow> lane_row \<Rightarrow> outcome" where
  "timelineLane_create d row =
     (if l_id row \<in> set (map l_id (lanes d)) then (d, Some UniqueConstraintFailed)
      else if l_weddingId row \<in> set (map w_id (weddings d))
           then (d\<lparr>lanes := lanes d @ [row]\<rparr>, None)
      else (d, Some ForeignKeyConstraintFailed))"

definition timelineLane_update :: "db \<Rightarrow> string \<Rightarrow> (lane_row \<Rightarrow> lane_row) \<Rightarrow> outcome" where
  "timelineLane_update d lid upd =
     (if lid \<notin> set (map l_id (lanes d)) then (d, Some RecordNotFound)
      else (d\<lparr>lanes := map (\<lambda>l. if l_id l = lid then upd l else l) (lanes d)\<rparr>, None))"

text \<open>Deleting a lane deletes the events that reference it (\<^verbatim>\<open>ON DELETE CASCADE\<close>).\<close>

definition timelineLane_delete :: "db \<Rightarrow> string \<Rightarrow> outcome" where
  "timelineLane_delete d lid =
     (if lid \<notin> set (map l_id (lanes d)) then (d, Some RecordNotFound)
      else (d\<lparr>lanes := filter (\<lambda>l. l_id l \<noteq> lid) (lanes d),
               events := filter (\<lambda>e. e_laneId e \<noteq> lid) (events d)\<rparr>, None))"

section \<open>Reconciliation service (src/app/api/weddings/[weddingId]/timeline/route.ts)\<close>

text \<open>\<^verbatim>\<open>s || d\<close> on a text that may be absent: the default replaces an absent or empty text.\<close>

definition or_default :: "string option \<Rightarrow> string \<Rightarrow> string" where
  "or_default s d = (case s of None \<Rightarrow> d | Some t \<Rightarrow> if t = [] then d else t)"

text \<open>
  A JavaScript value handed to Prisma for a text column: a text, or an \<^verbatim>\<open>OwnerRef\<close>
  object. \<^verbatim>\<open>owner || d\<close> is the owner when one is present, an object being truthy.
  Prisma accepts the text and refuses the object.
\<close>

datatype text_or_owner = Text string | Owner OwnerRef

definition owner_or_default :: "OwnerRef option \<Rightarrow> string \<Rightarrow> text_or_owner" where
  "owner_or_default ow d = (case ow of None \<Rightarrow> Text d | Some r \<Rightarrow> Owner r)"

definition prisma_text :: "text_or_owner \<Rightarrow> string option" where
  "prisma_text v = (case v of Text t \<Rightarrow> Some t | Owner r \<Rightarrow> None)"

text \<open>
  \<^verbatim>\<open>new Date(iso)\<close> of a window bound: the instant of the string, and the epoch for
  \<^verbatim>\<open>null\<close>.
\<close>

definition new_Date :: "instant option \<Rightarrow> instant" where
  "new_Date str = (case str of None \<Rightarrow> 0 | Some t \<Rightarrow> t)"

text \<open>
  \<^verbatim>\<open>date.setSeconds(0, 0)\<close>: seconds and milliseconds of the wall clock become zero; with
  an offset of whole minutes this is the minute boundary at or before the instant.
\<close>

definition setSeconds00 :: "instant \<Rightarrow> instant" where
  "setSeconds00 t = (t div 60000) * 60000"

text \<open>
  \<^verbatim>\<open>applyPatchOp\<close>: the window bounds arrive as the dates that \<^verbatim>\<open>new Date\<close> makes of the
  two strings.
\<close>

fun applyPatchOp :: "string \<Rightarrow> PatchOp \<Rightarrow> instant \<Rightarrow> instant \<Rightarrow> db \<Rightarrow> outcome" where
  "applyPatchOp weddingId' (create_event event) windowStart windowEnd d =
     (let start = startUtc event;
          endd = endUtc event;
          start = (if start < windowStart then windowStart else start);
          endd = (if endd > windowEnd then windowEnd else endd);
          start = setSeconds00 start;
          endd = setSeconds00 endd
      in case prisma_text (owner_or_default (assignedOwner event) ''Couple'') of
           None \<Rightarrow> (d, Some ValidationError)
         | Some assignedOwnerName \<Rightarrow>
             timelineEvent_create d
               \<lparr>e_id = item_id event,
                e_weddingId = weddingId',
                e_laneId = laneId event,
                e_title = title event,
                e_startUtc = start,
                e_endUtc = endd,
                e_category = or_default (category event) ''misc'',
                e_assignedOwnerType = ''couple'',
                e_assignedOwnerId = ''system'',
                e_assignedOwnerName = assignedOwnerName,
                e_status = or_default (status event) ''tentative'',
                e_locked = (case locked event of None \<Rightarrow> False | Some b \<Rightarrow> b),
                e_notes = item_notes event\<rparr>)"
| "applyPatchOp weddingId' (update_event_time eventId startUtc' endUtc') windowStart windowEnd d =
     (let start = startUtc';
          endd = endUtc';
          start = (if start < windowStart then windowStart else start);
          endd = (if endd > windowEnd then windowEnd else endd);
          start = setSeconds00 start;
          endd = setSeconds00 endd
      in timelineEvent_update d eventId (\<lambda>e. e\<lparr>e_startUtc := start, e_endUtc := endd\<rparr>))"
| "applyPatchOp weddingId' (update_event_lane eventId laneId') windowStart windowEnd d =
     timelineEvent_update_laneId d eventId laneId'"
| "applyPatchOp weddingId' (update_event_title eventId title') windowStart windowEnd d =
     timelineEvent_update d eventId (\<lambda>e. e\<lparr>e_title := title'\<rparr>)"
| "applyPatchOp weddingId' (update_event_owner eventId owner) windowStart windowEnd d =
     (case prisma_text (Owner owner) of
        None \<Rightarrow> (d, Some ValidationError)
      | Some assignedOwnerName \<Rightarrow>
          timelineEvent_update d eventId (\<lambda>e. e\<lparr>e_assignedOwnerName := assignedOwnerName\<rparr>))"
| "applyPatchOp weddingId' (delete_event eventId) windowStart windowEnd d =
     timelineEvent_delete d eventId"
| "applyPatchOp weddingId' (create_lane lane) windowStart windowEnd d =
     timelineLane_create d
       \<lparr>l_id = lane_id lane,
        l_weddingId = weddingId',
        l_name = lane_name lane,
        l_type = lane_laneType lane,
        l_ownerType = or_default (map_option or_type (lane_owner lane)) ''couple'',
        l_ownerId = or_default (map_option or_id (lane_owner lane)) ''system'',
        l_ownerName = or_default (map_option or_displayName (lane_owner lane)) ''Couple'',
        l_sortOrder = lane_sortOrder lane\<rparr>"
| "applyPatchOp weddingId' (update_lane laneId' name owner sortOrder) windowStart windowEnd d =
     timelineLane_update d laneId'
       (\<lambda>l. let l1 = (case name of None \<Rightarrow> l | Some n \<Rightarrow> l\<lparr>l_name := n\<rparr>);
                 l2 = (case sortOrder of None \<Rightarrow> l1 | Some s \<Rightarrow> l1\<lparr>l_sortOrder := s\<rparr>)
             in (case owner of None \<Rightarrow> l2
                 | Some ow \<Rightarrow> l2\<lparr>l_ownerType := or_type ow, l_ownerId := or_id ow,
                                 l_ownerName := or_displayName ow\<rparr>))"
| "applyPatchOp weddingId' (delete_lane laneId') windowStart windowEnd d =
     (case timelineEvent_deleteMany_lane d laneId' of
        (d1, Some err) \<Rightarrow> (d1, Some err)
      | (d1, None) \<Rightarrow> timelineLane_delete d1 laneId')"

text \<open>
  The loop \<^verbatim>\<open>for (const op of patchOps) await applyPatchOp(...)\<close>: an operation that
  throws ends the loop, and the state is the one the calls before it have left.
\<close>

fun applyPatchOps :: "string \<Rightarrow> PatchOp list \<Rightarrow> instant \<Rightarrow> instant \<Rightarrow> db \<Rightarrow> outcome" where
  "applyPatchOps weddingId' [] windowStart windowEnd d = (d, None)"
| "applyPatchOps weddingId' (op # rest) windowStart windowEnd d =
     (case applyPatchOp weddingId' op windowStart windowEnd d of
        (d1, Some err) \<Rightarrow> (d1, Some err)
      | (d1, None) \<Rightarrow> applyPatchOps weddingId' rest windowStart windowEnd d1)"

text \<open>The timeline as \<^verbatim>\<open>getFullTimeline\<close> returns it.\<close>

record lane_json =
  lj_id :: string
  lj_weddingId :: string
  lj_name :: string
  lj_type :: string
  lj_owner :: OwnerRef
  lj_sortOrder :: int

record event_json =
  ej_id :: string
  ej_weddingId :: string
  ej_title :: string
  ej_startUtc :: instant
  ej_endUtc :: instant
  ej_laneId :: string
  ej_category :: string
  ej_assignedOwner :: OwnerRef
  ej_status :: string
  ej_locked :: bool
  ej_notes :: "string option"

record timeline_json =
  tj_version :: int
  tj_venueTimezone :: string
  tj_weddingDate :: civil_date
  tj_windowStartUtc :: "instant option"
  tj_windowEndUtc :: "instant option"
  tj_lanes :: "lane_json list"
  tj_events :: "event_json list"
  tj_bands :: "band_row list"

definition getFullTimeline ::
  "instant \<Rightarrow> (string \<Rightarrow> zone option) \<Rightarrow> db \<Rightarrow> string \<Rightarrow> wedding_row \<Rightarrow> timeline_json" where
  "getFullTimeline now tzdb d weddingId' wedding =
     (let lanes' = sort_key l_sortOrder (filter (\<lambda>l. l_weddingId l = weddingId') (lanes d));
          events' = sort_key e_startUtc (filter (\<lambda>e. e_weddingId e = weddingId') (events d));
          bands' = filter (\<lambda>b. b_weddingId b = weddingId') (bands d);
          window = getTimelineWindow now (tzdb (w_venueTimezone wedding)) (w_weddingDate wedding)
      in \<lparr>tj_version = w_timelineVersion wedding,
          tj_venueTimezone = w_venueTimezone wedding,
          tj_weddingDate = w_weddingDate wedding,
          tj_windowStartUtc = windowStartUtc window,
          tj_windowEndUtc = windowEndUtc window,
          tj_lanes = map (\<lambda>lane. \<lparr>lj_id = l_id lane, lj_weddingId = l_weddingId lane,
                                  lj_name = l_name lane, lj_type = l_type lane,
                                  lj_owner = \<lparr>or_id = l_ownerId lane, or_type = l_ownerType lane,
                                              or_displayName = l_ownerName lane\<rparr>,
                                  lj_sortOrder = l_sortOrder lane\<rparr>) lanes',
          tj_events = map (\<lambda>event. \<lparr>ej_id = e_id event, ej_weddingId = e_weddingId event,
                                    ej_title = e_title event, ej_startUtc = e_startUtc event,
                                    ej_endUtc = e_endUtc event, ej_laneId = e_laneId event,
                                    ej_category = e_category event,
                                    ej_assignedOwner = \<lparr>or_id = e_assignedOwnerId event,
                                                        or_type = e_assignedOwnerType event,
                                                        or_displayName = e_assignedOwnerName event\<rparr>,
                                    ej_status = e_status event, ej_locked = e_locked event,
                                    ej_notes = e_notes event\<rparr>) events',
          tj_bands = bands'\<rparr>)"

text \<open>A response: the HTTP status and the JSON body.\<close>

datatype body =
    ErrorBody string
  | ConflictBody string int timeline_json
  | TimelineBody timeline_json

type_synonym response = "nat \<times> body"

text \<open>
  \<^verbatim>\<open>PUT\<close>: the request body is \<^verbatim>\<open>{ baseVersion, patchOps }\<close>; \<open>now\<close> is the clock and \<open>tzdb\<close>
  the time zone database that Luxon reads. The \<^verbatim>\<open>catch\<close> turns every error thrown
  inside into the status 500, with one and the same body; it undoes nothing.
\<close>

definition PUT ::
  "instant \<Rightarrow> (string \<Rightarrow> zone option) \<Rightarrow> db \<Rightarrow> string \<Rightarrow> int \<Rightarrow> PatchOp list \<Rightarrow> response \<times> db" where
  "PUT now tzdb d weddingId' baseVersion' patchOps' =
     (case wedding_findUnique d weddingId' of
        None \<Rightarrow> ((404, ErrorBody ''Wedding not found''), d)
      | Some wedding \<Rightarrow>
          if w_timelineVersion wedding \<noteq> baseVersion'
          then ((409, ConflictBody ''Version conflict'' (w_timelineVersion wedding)
                        (getFullTimeline now tzdb d weddingId' wedding)), d)
          else
            let window = getTimelineWindow now (tzdb (w_venueTimezone wedding))
                           (w_weddingDate wedding)
            in (case applyPatchOps weddingId' patchOps' (new_Date (windowStartUtc window))
                       (new_Date (windowEndUtc window)) d of
                  (d1, Some err) \<Rightarrow> ((500, ErrorBody ''Failed to update timeline''), d1)
                | (d1, None) \<Rightarrow>
                    (case wedding_increment_version d1 weddingId' of
                       (d2, Some err) \<Rightarrow> ((500, ErrorBody ''Failed to update timeline''), d2)
                     | (d2, None) \<Rightarrow>
                         (case wedding_findUnique d2 weddingId' of
                            None \<Rightarrow> ((500, ErrorBody ''Failed to update timeline''), d2)
                          | Some updatedWedding \<Rightarrow>
                              ((200, TimelineBody
                                       (getFullTimeline now tzdb d2 weddingId' updatedWedding)),
                               d2)))))"

section \<open>Session controller (src/hooks/useTimeline.ts)\<close>

text \<open>
  The state of the hook, and \<^verbatim>\<open>publish\<close> as a function of the state and of what the
  network answers. The answer of \<^verbatim>\<open>fetch\<close> is one of the cases the code tells apart: the
  call throws, the status is 409 (with the \<^verbatim>\<open>currentVersion\<close> of the body, if any),
  another status that is not ok, or an ok status with a timeline. The requests sent
  are returned with the result.
\<close>

record TimelineState =
  ts_version :: int
  ts_venueTimezone :: string
  ts_weddingDate :: string
  ts_windowStartUtc :: instant
  ts_windowEndUtc :: instant
  ts_lanes :: "TimelineLane list"
  ts_events :: "TimelineEventItem list"
  ts_bands :: "band_row list"

datatype fetch_result =
    FetchThrows string
  | Status409 "int option"
  | StatusNotOk nat
  | StatusOk TimelineState

datatype ui_error =
    Message string
  | UpdatedBySomeoneElse int "int option"

record put_request =
  req_weddingId :: string
  req_baseVersion :: int
  req_patchOps :: "PatchOp list"

record session =
  timeline :: "TimelineState option"
  isLoading :: bool
  error :: "ui_error option"
  draft :: DraftState
  history :: "PatchOp HistoryState"
  selectedEventId :: "string option"

definition publish ::
  "(put_request \<Rightarrow> fetch_result) \<Rightarrow> string \<Rightarrow> session \<Rightarrow> bool \<times> session \<times> put_request list" where
  "publish fetch weddingId' s =
     (if \<not> isDirty (draft s) \<or> length (patchOps (draft s)) = 0 then (True, s, [])
      else
        let req = \<lparr>req_weddingId = weddingId', req_baseVersion = baseVersion (draft s),
                   req_patchOps = patchOps (draft s)\<rparr>
        in (case fetch req of
              Status409 currentVersion \<Rightarrow>
                (False, s\<lparr>error := Some (UpdatedBySomeoneElse (baseVersion (draft s)) currentVersion)\<rparr>,
                 [req])
            | StatusNotOk code \<Rightarrow>
                (False, s\<lparr>error := Some (Message ''Failed to publish changes'')\<rparr>, [req])
            | FetchThrows msg \<Rightarrow> (False, s\<lparr>error := Some (Message msg)\<rparr>, [req])
            | StatusOk data \<Rightarrow>
                (True, s\<lparr>timeline := Some data, draft := resetDraft (ts_version data),
                          history := clearHistory (history s), error := None\<rparr>, [req])))"

section \<open>Predicates used in the statements\<close>

text \<open>The two stacks of a history together hold no more batches than \<^verbatim>\<open>maxSize\<close>.\<close>

definition history_within_capacity :: "'op HistoryState \<Rightarrow> bool" where
  "history_within_capacity h \<longleftrightarrow> int (length (past h) + length (future h)) \<le> maxSize h"

section \<open>Examples of canonical state\<close>

text \<open>
  A clock in January 2026, when New York is on standard time, and a zone database that
  knows America/New_York and UTC and no other name.
\<close>

definition example_now :: instant where
  "example_now = iso_instant \<lparr>cd_year = 2026, cd_month = 1, cd_day = 15\<rparr> 12 0"

definition example_tzdb :: "string \<Rightarrow> zone option" where
  "example_tzdb name =
     (if name = ''America/New_York'' then Some America_New_York_2026
      else if name = ''UTC'' then Some (\<lambda>t. 0)
      else None)"

text \<open>
  A state with one wedding at version 4 (17 October 2026, America/New_York), one lane
  and one locked event from 19:00 to 19:30 UTC.
\<close>

definition example_db :: db where
  "example_db =
     \<lparr>weddings = [\<lparr>w_id = ''w1'',
                   w_weddingDate = \<lparr>cd_year = 2026, cd_month = 10, cd_day = 17\<rparr>,
                   w_venueTimezone = ''America/New_York'',
                   w_timelineVersion = 4\<rparr>],
      lanes = [\<lparr>l_id = ''l1'', l_weddingId = ''w1'', l_name = ''Ceremony'', l_type = ''ceremony'',
                l_ownerType = ''couple'', l_ownerId = ''system'', l_ownerName = ''Couple'',
                l_sortOrder = 0\<rparr>],
      events = [\<lparr>e_id = ''e1'', e_weddingId = ''w1'', e_laneId = ''l1'', e_title = ''Vows'',
                 e_startUtc = 1792263600000, e_endUtc = 1792265400000,
                 e_category = ''ceremony'', e_assignedOwnerType = ''couple'',
                 e_assignedOwnerId = ''system'', e_assignedOwnerName = ''Couple'',
                 e_status = ''confirmed'', e_locked = True, e_notes = None\<rparr>],
      bands = []\<rparr>"

text \<open>
  The same state with a second wedding \<open>w2\<close>, which has a lane and an event \<open>e9\<close> of its
  own.
\<close>

definition example_db2 :: db where
  "example_db2 =
     example_db
       \<lparr>weddings := weddings example_db @
          [\<lparr>w_id = ''w2'',
            w_weddingDate = \<lparr>cd_year = 2026, cd_month = 6, cd_day = 6\<rparr>,
            w_venueTimezone = ''UTC'',
            w_timelineVersion = 1\<rparr>],
        lanes := lanes example_db @
          [\<lparr>l_id = ''l9'', l_weddingId = ''w2'', l_name = ''Dinner'', l_type = ''meal'',
            l_ownerType = ''couple'', l_ownerId = ''system'', l_ownerName = ''Couple'',
            l_sortOrder = 0\<rparr>],
        events := events example_db @
          [\<lparr>e_id = ''e9'', e_weddingId = ''w2'', e_laneId = ''l9'', e_title = ''Toast'',
            e_startUtc = 1780772400000, e_endUtc = 1780774200000,
            e_category = ''meal'', e_assignedOwnerType = ''couple'',
            e_assignedOwnerId = ''system'', e_assignedOwnerName = ''Couple'',
            e_status = ''tentative'', e_locked = False, e_notes = None\<rparr>]\<rparr>"

section \<open>Properties of the Snap/Clamp engine\<close>

lemma Math_round_of_int: "Math_round (of_int m / of_int 1) = m"
  unfolding Math_round_def by (simp add: floor_unique)

lemma snapToMinute_floor:
  "snapToMinute off t SNAP_MINUTES = (t div 60000) * 60000"
proof -
  define q where "q = t div 60000 + off"
  have a: "(t + off * 60000) div 60000 = q"
    by (simp add: q_def)
  have "(t + off * 60000) div 3600000 = ((t + off * 60000) div 60000) div 60"
    by (simp add: div_mult2_eq [symmetric])
  then have b: "(t + off * 60000) div 3600000 = q div 60"
    by (simp only: a)
  have d: "(q div 60) * 3600000 + (q mod 60) * 60000 = q * 60000"
    by presburger
  have "snapToMinute off t SNAP_MINUTES
        = (q div 60) * 3600000 + (q mod 60) * 60000 - off * 60000"
    using Math_round_of_int [of "q mod 60"]
    by (simp add: snapToMinute_def SNAP_MINUTES_def dt_minute_def dt_set_minute_def a b Let_def)
  also have "\<dots> = q * 60000 - off * 60000"
    by (simp only: d)
  also have "\<dots> = (t div 60000) * 60000"
    by (simp add: q_def algebra_simps)
  finally show ?thesis .
qed







text \<open>
  C3. The claim: snapping rounds an instant to the nearest minute boundary, and an
  instant exactly 30 seconds past a minute goes to the following minute. The code
  reads the minute of the wall clock, an integer, rounds that integer (which changes
  nothing for a step of one minute) and zeroes seconds and milliseconds: every instant
  goes to the minute boundary at or before it. At 30.000 seconds past the minute \<open>k\<close>
  the result is the minute \<open>k\<close>, not the minute \<open>k + 1\<close>.
\<close>

theorem snapToMinute_half_minute_truncates:
  "snapToMinute off (k * 60000 + 30000) SNAP_MINUTES = k * 60000
   \<and> snapToMinute off (k * 60000 + 30000) SNAP_MINUTES \<noteq> (k + 1) * 60000"
  by (simp add: snapToMinute_floor)



section \<open>Properties of the history stack\<close>

lemma trimToMaxSize_total:
  "0 \<le> m \<Longrightarrow> trimToMaxSize xs m = Some (drop (length xs - nat m) xs)"
proof (induction xs)
  case Nil
  then show ?case by (subst trimToMaxSize.simps) simp
next
  case (Cons x xs)
  show ?case
  proof (cases "int (length (x # xs)) > m")
    case True
    then have "Suc (length xs) - nat m = Suc (length xs - nat m)"
      using Cons.prems by auto
    with True Cons show ?thesis
      by (subst trimToMaxSize.simps) (simp add: shift_def)
  next
    case False
    then show ?thesis
      by (subst trimToMaxSize.simps) simp
  qed
qed

text \<open>The loop returns only for a bound that is not negative.\<close>

lemma trimToMaxSize_Some_nonneg:
  assumes "trimToMaxSize xs m = Some y"
  shows "0 \<le> m"
proof (rule trimToMaxSize.raw_induct [where P = "\<lambda>_ b _. 0 \<le> b", OF _ assms])
  fix tr :: "'a list \<Rightarrow> int \<Rightarrow> 'a list option" and zs :: "'a list" and b :: int and r
  assume ih: "\<And>zs b r. tr zs b = Some r \<Longrightarrow> 0 \<le> b"
    and step: "(if b < int (length zs) then tr (shift zs) b else Some zs) = Some r"
  show "0 \<le> b"
  proof (cases "b < int (length zs)")
    case True
    with step have "tr (shift zs) b = Some r" by simp
    then show ?thesis by (rule ih)
  next
    case False
    then show ?thesis by simp
  qed
qed

lemma trimToMaxSize_negative: "m < 0 \<Longrightarrow> trimToMaxSize xs m = None"
  using trimToMaxSize_Some_nonneg [of xs m] by (cases "trimToMaxSize xs m") auto

lemma recordAction_total:
  "0 \<le> maxSize h \<Longrightarrow>
   recordAction h ops =
     Some (h\<lparr>past := drop (Suc (length (past h)) - nat (maxSize h)) (past h @ [ops]),
             future := []\<rparr>)"
  by (simp add: recordAction_def trimToMaxSize_total)

lemma recordAction_future:
  "recordAction h ops = Some h' \<Longrightarrow> future h' = []"
  by (auto simp: recordAction_def split: option.splits)

lemma undo_nonempty:
  "past h \<noteq> [] \<Longrightarrow>
   undo h = (h\<lparr>past := butlast (past h), future := last (past h) # future h\<rparr>,
             Some (last (past h)))"
  by (simp add: undo_def Let_def last_conv_nth butlast_conv_take)

lemma redo_nonempty:
  "future h \<noteq> [] \<Longrightarrow>
   redo h = (h\<lparr>past := past h @ [hd (future h)], future := tl (future h)\<rparr>,
             Some (hd (future h)))"
  by (simp add: redo_def Let_def hd_conv_nth drop_Suc)

text \<open>
  C7. For a history with a non-empty past, \<^verbatim>\<open>undo\<close> returns the newest batch of the
  past and moves it to the front of the future, and \<^verbatim>\<open>redo\<close> on the history that
  \<^verbatim>\<open>undo\<close> returned gives the same batch and the original history. Whenever
  \<^verbatim>\<open>recordAction\<close> returns, the future of the result is empty; and it returns for every
  history whose \<^verbatim>\<open>maxSize\<close> is not negative.
\<close>

theorem history_undo_redo_symmetry:
  "(past h \<noteq> [] \<longrightarrow>
       snd (undo h) = Some (last (past h))
     \<and> past (fst (undo h)) = butlast (past h)
     \<and> future (fst (undo h)) = last (past h) # future h
     \<and> redo (fst (undo h)) = (h, Some (last (past h))))
   \<and> (\<forall>h'. recordAction h ops = Some h' \<longrightarrow> future h' = [])
   \<and> (0 \<le> maxSize h \<longrightarrow> (\<exists>h'. recordAction h ops = Some h'))"
proof (intro conjI impI allI)
  assume ne: "past h \<noteq> []"
  show "snd (undo h) = Some (last (past h))"
    and "past (fst (undo h)) = butlast (past h)"
    and "future (fst (undo h)) = last (past h) # future h"
    using ne by (simp_all add: undo_nonempty)
  show "redo (fst (undo h)) = (h, Some (last (past h)))"
    using ne by (simp add: undo_nonempty redo_nonempty)
next
  fix h' assume "recordAction h ops = Some h'"
  then show "future h' = []" by (rule recordAction_future)
next
  assume "0 \<le> maxSize h"
  then show "\<exists>h'. recordAction h ops = Some h'"
    by (simp add: recordAction_total)
qed

text \<open>A history of depth 50 with two batches in the past and one in the future.\<close>

theorem history_undo_redo_symmetry_witness:
  "past \<lparr>past = [[1::nat], [2, 3]], future = [[4]], maxSize = 50\<rparr> \<noteq> []
   \<and> (0::int) \<le> maxSize \<lparr>past = [[1::nat], [2, 3]], future = [[4]], maxSize = 50\<rparr>
   \<and> undo \<lparr>past = [[1::nat], [2, 3]], future = [[4]], maxSize = 50\<rparr>
       = (\<lparr>past = [[1]], future = [[2, 3], [4]], maxSize = 50\<rparr>, Some [2, 3])
   \<and> redo \<lparr>past = [[1::nat]], future = [[2, 3], [4]], maxSize = 50\<rparr>
       = (\<lparr>past = [[1], [2, 3]], future = [[4]], maxSize = 50\<rparr>, Some [2, 3])
   \<and> recordAction \<lparr>past = [[1::nat], [2, 3]], future = [[4]], maxSize = 50\<rparr> [5]
       = Some \<lparr>past = [[1], [2, 3], [5]], future = [], maxSize = 50\<rparr>"
  using history_undo_redo_symmetry
    [of "\<lparr>past = [[1::nat], [2, 3]], future = [[4]], maxSize = 50\<rparr>" "[5]"]
  by (simp add: undo_nonempty redo_nonempty recordAction_total)

text \<open>
  C8, as stated, fails for \<^verbatim>\<open>redo\<close>: a history whose past is at its bound and whose
  future is not empty has, after \<^verbatim>\<open>redo\<close>, a past longer than the bound.
\<close>

theorem redo_exceeds_maxSize_counterexample:
  "int (length (past \<lparr>past = [[1::nat]], future = [[2]], maxSize = 1\<rparr>))
     \<le> maxSize \<lparr>past = [[1::nat]], future = [[2]], maxSize = 1\<rparr>
   \<and> \<not> int (length (past (fst (redo \<lparr>past = [[1::nat]], future = [[2]], maxSize = 1\<rparr>))))
         \<le> maxSize (fst (redo \<lparr>past = [[1::nat]], future = [[2]], maxSize = 1\<rparr>))"
  by (simp add: redo_nonempty)

text \<open>
  C8, amended. For a history whose past has at most \<^verbatim>\<open>maxSize\<close> batches,
  \<^verbatim>\<open>recordAction\<close> returns, keeps \<^verbatim>\<open>maxSize\<close> and leaves in the past the newest
  \<^verbatim>\<open>maxSize\<close> batches of the old past followed by the new batch (the oldest are dropped
  from the front); \<^verbatim>\<open>undo\<close> and \<^verbatim>\<open>clearHistory\<close> leave a past within the bound. \<^verbatim>\<open>redo\<close>
  leaves a past within the bound when past and future together hold at most
  \<^verbatim>\<open>maxSize\<close> batches, and this joint bound is kept by all four operations.
\<close>

theorem history_bounded:
  "(int (length (past h)) \<le> maxSize h \<longrightarrow>
      (\<exists>h'. recordAction h ops = Some h' \<and> maxSize h' = maxSize h
            \<and> past h' = drop (Suc (length (past h)) - nat (maxSize h)) (past h @ [ops])
            \<and> int (length (past h')) \<le> maxSize h')
    \<and> maxSize (fst (undo h)) = maxSize h
    \<and> int (length (past (fst (undo h)))) \<le> maxSize h
    \<and> maxSize (clearHistory h) = maxSize h
    \<and> int (length (past (clearHistory h))) \<le> maxSize h)
   \<and> (history_within_capacity h \<longrightarrow>
      maxSize (fst (redo h)) = maxSize h
    \<and> int (length (past (fst (redo h)))) \<le> maxSize h
    \<and> history_within_capacity (fst (redo h))
    \<and> history_within_capacity (fst (undo h))
    \<and> history_within_capacity (clearHistory h)
    \<and> (\<exists>h'. recordAction h ops = Some h' \<and> history_within_capacity h'))"
proof (intro conjI impI)
  assume b: "int (length (past h)) \<le> maxSize h"
  then have nn: "0 \<le> maxSize h" by simp
  show "\<exists>h'. recordAction h ops = Some h' \<and> maxSize h' = maxSize h
            \<and> past h' = drop (Suc (length (past h)) - nat (maxSize h)) (past h @ [ops])
            \<and> int (length (past h')) \<le> maxSize h'"
    using nn by (auto simp: recordAction_total)
  show "maxSize (fst (undo h)) = maxSize h"
    by (simp add: undo_def Let_def)
  show "int (length (past (fst (undo h)))) \<le> maxSize h"
    using b by (auto simp: undo_def Let_def)
  show "maxSize (clearHistory h) = maxSize h"
    and "int (length (past (clearHistory h))) \<le> maxSize h"
    using nn by (simp_all add: clearHistory_def)
next
  assume w: "history_within_capacity h"
  then have nn: "0 \<le> maxSize h" by (simp add: history_within_capacity_def)
  show "maxSize (fst (redo h)) = maxSize h"
    by (simp add: redo_def Let_def)
  show "int (length (past (fst (redo h)))) \<le> maxSize h"
    using w by (cases "future h") (auto simp: redo_def Let_def history_within_capacity_def)
  show "history_within_capacity (fst (redo h))"
    using w by (cases "future h") (auto simp: redo_def Let_def history_within_capacity_def)
  show "history_within_capacity (fst (undo h))"
    using w by (cases "past h" rule: rev_cases) (auto simp: undo_def Let_def history_within_capacity_def)
  show "history_within_capacity (clearHistory h)"
    using nn by (simp add: clearHistory_def history_within_capacity_def)
  show "\<exists>h'. recordAction h ops = Some h' \<and> history_within_capacity h'"
    using nn by (auto simp: recordAction_total history_within_capacity_def)
qed

text \<open>
  A history of depth 2 that is full: recording drops the oldest batch. A history of
  depth 2 with one batch on each stack: \<^verbatim>\<open>redo\<close> fills the past to the bound.
\<close>

theorem history_bounded_witness:
  "int (length (past \<lparr>past = [[1::nat], [2]], future = [], maxSize = 2\<rparr>))
     \<le> maxSize \<lparr>past = [[1::nat], [2]], future = [], maxSize = 2\<rparr>
   \<and> recordAction \<lparr>past = [[1::nat], [2]], future = [], maxSize = 2\<rparr> [3]
       = Some \<lparr>past = [[2], [3]], future = [], maxSize = 2\<rparr>
   \<and> history_within_capacity \<lparr>past = [[1::nat]], future = [[2]], maxSize = 2\<rparr>
   \<and> fst (redo \<lparr>past = [[1::nat]], future = [[2]], maxSize = 2\<rparr>)
       = \<lparr>past = [[1], [2]], future = [], maxSize = 2\<rparr>"
  using history_bounded [of "\<lparr>past = [[1::nat], [2]], future = [], maxSize = 2\<rparr>" "[3]"]
    history_bounded [of "\<lparr>past = [[1::nat]], future = [[2]], maxSize = 2\<rparr>" "[3]"]
  by (simp add: recordAction_total redo_nonempty history_within_capacity_def)

lemma createHistory_within_capacity:
  "0 \<le> n \<Longrightarrow> history_within_capacity (createHistory n)"
  by (simp add: createHistory_def history_within_capacity_def)

section \<open>Properties of the session controller\<close>

text \<open>
  C10. When the draft is not dirty or its list of patch operations is empty,
  \<^verbatim>\<open>publish\<close> returns true, sends no request, and leaves the whole state of the session
  (timeline, draft, history, error) as it was, whatever the network would answer.
\<close>

theorem publish_clean_draft_noop:
  "\<not> isDirty (draft s) \<or> patchOps (draft s) = [] \<Longrightarrow> publish fetch wid s = (True, s, [])"
  by (auto simp: publish_def)

text \<open>A session just loaded at version 3, and one marked dirty with no operation.\<close>

theorem publish_clean_draft_noop_witness:
  "isDirty (createDraftState 3) = False
   \<and> patchOps \<lparr>baseVersion = 3, patchOps = [], isDirty = True\<rparr> = []
   \<and> publish (\<lambda>r. StatusNotOk 500) ''w1''
        \<lparr>timeline = None, isLoading = False, error = None,
         draft = createDraftState 3, history = createHistory 50, selectedEventId = None\<rparr>
       = (True,
          \<lparr>timeline = None, isLoading = False, error = None,
           draft = createDraftState 3, history = createHistory 50, selectedEventId = None\<rparr>,
          [])
   \<and> publish (\<lambda>r. StatusNotOk 500) ''w1''
        \<lparr>timeline = None, isLoading = False, error = None,
         draft = \<lparr>baseVersion = 3, patchOps = [], isDirty = True\<rparr>,
         history = createHistory 50, selectedEventId = None\<rparr>
       = (True,
          \<lparr>timeline = None, isLoading = False, error = None,
           draft = \<lparr>baseVersion = 3, patchOps = [], isDirty = True\<rparr>,
           history = createHistory 50, selectedEventId = None\<rparr>,
          [])"
  using publish_clean_draft_noop
      [of "\<lparr>timeline = None, isLoading = False, error = None,
            draft = createDraftState 3, history = createHistory 50,
            selectedEventId = None\<rparr>" "\<lambda>r. StatusNotOk 500" "''w1''"]
    publish_clean_draft_noop
      [of "\<lparr>timeline = None, isLoading = False, error = None,
            draft = \<lparr>baseVersion = 3, patchOps = [], isDirty = True\<rparr>,
            history = createHistory 50, selectedEventId = None\<rparr>" "\<lambda>r. StatusNotOk 500" "''w1''"]
  by (simp add: createDraftState_def)

section \<open>Properties of the time-window calculator\<close>

text \<open>
  When the zone has the offset \<open>c\<close> at the first guess and at the instant that \<open>c\<close>
  itself gives, the wall-clock time is resolved with \<open>c\<close>.
\<close>

lemma fixOffset_resolved:
  assumes "tz (localTS - o1 * 60000) = c" and "tz (localTS - c * 60000) = c"
  shows "fixOffset localTS o1 tz = (localTS - c * 60000, c)"
proof -
  have e1: "localTS - o1 * 60 * 1000 = localTS - o1 * 60000"
    by simp
  have e2: "localTS - o1 * 60000 - (c - o1) * 60 * 1000 = localTS - c * 60000"
    by (simp add: algebra_simps)
  show ?thesis
    unfolding fixOffset_def Let_def e1 assms(1) e2 assms(2) by simp
qed

lemma days_2026_10_17: "days_from_civil \<lparr>cd_year = 2026, cd_month = 10, cd_day = 17\<rparr> = 20743"
  by (simp add: days_from_civil_def Let_def)

lemma days_2026_10_18: "days_from_civil \<lparr>cd_year = 2026, cd_month = 10, cd_day = 18\<rparr> = 20744"
  by (simp add: days_from_civil_def Let_def)

lemma valid_2026_10_17: "validGregorianDate \<lparr>cd_year = 2026, cd_month = 10, cd_day = 17\<rparr>"
  by (simp add: validGregorianDate_def daysInMonth_def)

text \<open>An unknown zone and a date out of range give \<^verbatim>\<open>null\<close> bounds.\<close>

lemma getTimelineWindow_unknown_zone:
  "getTimelineWindow now None d
   = \<lparr>windowStartLocal = None, windowEndLocal = None, windowStartUtc = None, windowEndUtc = None\<rparr>"
  by (simp add: getTimelineWindow_def)

lemma getTimelineWindow_invalid_date:
  "\<not> validGregorianDate d \<Longrightarrow>
   getTimelineWindow now (Some z) d
   = \<lparr>windowStartLocal = None, windowEndLocal = None, windowStartUtc = None, windowEndUtc = None\<rparr>"
  by (simp add: getTimelineWindow_def DateTime_fromISO_def)

text \<open>
  C9. For the wedding date 2026-10-17 and a zone that is four hours behind UTC at the
  instants at which Luxon reads it (the first guess of midnight, made with the offset
  the zone has now; 04:00Z and 07:00Z on 17 October; 07:00Z on 18 October 2026), as
  America/New_York is, \<^verbatim>\<open>getTimelineWindow\<close> gives the window from 03:00 on the wall clock
  of the wedding date to 03:00 of the next day, that is from 2026-10-17T07:00:00Z to
  2026-10-18T07:00:00Z.
\<close>

theorem getTimelineWindow_new_york_example:
  assumes "z (iso_instant \<lparr>cd_year = 2026, cd_month = 10, cd_day = 17\<rparr> 0 0 - z now * 60000) = - 240"
    and "z (iso_instant \<lparr>cd_year = 2026, cd_month = 10, cd_day = 17\<rparr> 4 0) = - 240"
    and "z (iso_instant \<lparr>cd_year = 2026, cd_month = 10, cd_day = 17\<rparr> 7 0) = - 240"
    and "z (iso_instant \<lparr>cd_year = 2026, cd_month = 10, cd_day = 18\<rparr> 7 0) = - 240"
  shows "map_option dt_local
           (windowStartLocal (getTimelineWindow now (Some z)
              \<lparr>cd_year = 2026, cd_month = 10, cd_day = 17\<rparr>))
           = Some (iso_instant \<lparr>cd_year = 2026, cd_month = 10, cd_day = 17\<rparr> 3 0)
       \<and> map_option dt_local
           (windowEndLocal (getTimelineWindow now (Some z)
              \<lparr>cd_year = 2026, cd_month = 10, cd_day = 17\<rparr>))
           = Some (iso_instant \<lparr>cd_year = 2026, cd_month = 10, cd_day = 18\<rparr> 3 0)
       \<and> windowStartUtc (getTimelineWindow now (Some z)
              \<lparr>cd_year = 2026, cd_month = 10, cd_day = 17\<rparr>)
           = Some (iso_instant \<lparr>cd_year = 2026, cd_month = 10, cd_day = 17\<rparr> 7 0)
       \<and> windowEndUtc (getTimelineWindow now (Some z)
              \<lparr>cd_year = 2026, cd_month = 10, cd_day = 17\<rparr>)
           = Some (iso_instant \<lparr>cd_year = 2026, cd_month = 10, cd_day = 18\<rparr> 7 0)
       \<and> iso_instant \<lparr>cd_year = 2026, cd_month = 10, cd_day = 17\<rparr> 7 0 = 1792220400000
       \<and> iso_instant \<lparr>cd_year = 2026, cd_month = 10, cd_day = 18\<rparr> 7 0 = 1792306800000"
proof -
  have a: "z (1792195200000 - z now * 60000) = - 240" and b: "z 1792209600000 = - 240"
    and c: "z 1792220400000 = - 240" and d: "z 1792306800000 = - 240"
    using assms by (simp_all add: iso_instant_def days_2026_10_17 days_2026_10_18)
  have m: "fixOffset 1792195200000 (z now) z = (1792209600000, - 240)"
    using fixOffset_resolved [of z 1792195200000 "z now" "- 240"] a b by simp
  have s: "fixOffset 1792206000000 (- 240) z = (1792220400000, - 240)"
    using fixOffset_resolved [of z 1792206000000 "- 240" "- 240"] c by simp
  have e: "fixOffset 1792292400000 (- 240) z = (1792306800000, - 240)"
    using fixOffset_resolved [of z 1792292400000 "- 240" "- 240"] d by simp
  have midnight: "DateTime_fromISO now (Some z) \<lparr>cd_year = 2026, cd_month = 10, cd_day = 17\<rparr>
                  = Some \<lparr>dt_ts = 1792209600000, dt_o = - 240\<rparr>"
    using m by (simp add: DateTime_fromISO_def valid_2026_10_17 days_2026_10_17)
  have start: "DateTime_set_hour z \<lparr>dt_ts = 1792209600000, dt_o = - 240\<rparr> 3
               = \<lparr>dt_ts = 1792220400000, dt_o = - 240\<rparr>"
    using s by (simp add: DateTime_set_hour_def dt_local_def)
  have endd: "DateTime_plus_days z \<lparr>dt_ts = 1792220400000, dt_o = - 240\<rparr> 1
              = \<lparr>dt_ts = 1792306800000, dt_o = - 240\<rparr>"
    using e by (simp add: DateTime_plus_days_def dt_local_def)
  show ?thesis
    by (simp add: getTimelineWindow_def TIMELINE_WINDOW_START_HOUR_def midnight start endd
        dt_local_def iso_instant_def days_2026_10_17 days_2026_10_18)
qed

text \<open>
  The rules of America/New_York for 2026 satisfy the hypotheses, here with a clock in
  January, when the first guess of the offset is that of standard time.
\<close>

theorem getTimelineWindow_new_york_example_witness:
  "America_New_York_2026 example_now = - 300
   \<and> America_New_York_2026 (iso_instant \<lparr>cd_year = 2026, cd_month = 10, cd_day = 17\<rparr> 0 0
         - America_New_York_2026 example_now * 60000) = - 240
   \<and> America_New_York_2026 (iso_instant \<lparr>cd_year = 2026, cd_month = 10, cd_day = 17\<rparr> 4 0) = - 240
   \<and> America_New_York_2026 (iso_instant \<lparr>cd_year = 2026, cd_month = 10, cd_day = 17\<rparr> 7 0) = - 240
   \<and> America_New_York_2026 (iso_instant \<lparr>cd_year = 2026, cd_month = 10, cd_day = 18\<rparr> 7 0) = - 240
   \<and> windowStartUtc (getTimelineWindow example_now (Some America_New_York_2026)
                        \<lparr>cd_year = 2026, cd_month = 10, cd_day = 17\<rparr>) = Some 1792220400000
   \<and> windowEndUtc (getTimelineWindow example_now (Some America_New_York_2026)
                      \<lparr>cd_year = 2026, cd_month = 10, cd_day = 17\<rparr>) = Some 1792306800000"
proof -
  have n: "America_New_York_2026 example_now = - 300"
    by (simp add: America_New_York_2026_def example_now_def iso_instant_def days_from_civil_def Let_def)
  have a: "America_New_York_2026 (iso_instant \<lparr>cd_year = 2026, cd_month = 10, cd_day = 17\<rparr> 0 0
             - America_New_York_2026 example_now * 60000) = - 240"
    unfolding n by (simp add: America_New_York_2026_def iso_instant_def days_from_civil_def Let_def)
  have b: "America_New_York_2026 (iso_instant \<lparr>cd_year = 2026, cd_month = 10, cd_day = 17\<rparr> 4 0) = - 240"
    and c: "America_New_York_2026 (iso_instant \<lparr>cd_year = 2026, cd_month = 10, cd_day = 17\<rparr> 7 0) = - 240"
    and d: "America_New_York_2026 (iso_instant \<lparr>cd_year = 2026, cd_month = 10, cd_day = 18\<rparr> 7 0) = - 240"
    by (simp_all add: America_New_York_2026_def iso_instant_def days_from_civil_def Let_def)
  show ?thesis
    using getTimelineWindow_new_york_example [OF a b c d] n a b c d by simp
qed

section \<open>Properties of the reconciliation service\<close>

lemma example_window:
  "getTimelineWindow example_now (example_tzdb ''America/New_York'')
     \<lparr>cd_year = 2026, cd_month = 10, cd_day = 17\<rparr>
   = \<lparr>windowStartLocal = Some \<lparr>dt_ts = 1792220400000, dt_o = - 240\<rparr>,
       windowEndLocal = Some \<lparr>dt_ts = 1792306800000, dt_o = - 240\<rparr>,
       windowStartUtc = Some 1792220400000, windowEndUtc = Some 1792306800000\<rparr>"
  by (simp add: getTimelineWindow_def DateTime_fromISO_def DateTime_set_hour_def
      DateTime_plus_days_def fixOffset_def dt_local_def valid_2026_10_17 days_2026_10_17
      example_tzdb_def example_now_def America_New_York_2026_def iso_instant_def
      days_from_civil_def TIMELINE_WINDOW_START_HOUR_def Let_def)

lemma example_find: "wedding_findUnique example_db ''w1'' = Some (hd (weddings example_db))"
  by (simp add: wedding_findUnique_def example_db_def)

lemma example_find2: "wedding_findUnique example_db2 ''w1'' = Some (hd (weddings example_db))"
  by (simp add: wedding_findUnique_def example_db2_def example_db_def)

lemma example_wedding:
  "hd (weddings example_db)
   = \<lparr>w_id = ''w1'', w_weddingDate = \<lparr>cd_year = 2026, cd_month = 10, cd_day = 17\<rparr>,
       w_venueTimezone = ''America/New_York'', w_timelineVersion = 4\<rparr>"
  by (simp add: example_db_def)

lemma example_bounds:
  "new_Date (windowStartUtc (getTimelineWindow example_now
       (example_tzdb (w_venueTimezone (hd (weddings example_db))))
       (w_weddingDate (hd (weddings example_db))))) = 1792220400000"
  "new_Date (windowEndUtc (getTimelineWindow example_now
       (example_tzdb (w_venueTimezone (hd (weddings example_db))))
       (w_weddingDate (hd (weddings example_db))))) = 1792306800000"
  by (simp_all add: example_wedding example_window new_Date_def)

text \<open>
  C2. A publish whose \<^verbatim>\<open>baseVersion\<close> differs from the \<^verbatim>\<open>timelineVersion\<close> of the wedding
  is answered with the status 409 and a body that carries the current version and the
  current timeline, and the state is the one before the request. The timeline of the
  body has the version, zone, date and window of the wedding, the lanes of the wedding
  in the order of \<^verbatim>\<open>sortOrder\<close>, its events in the order of \<^verbatim>\<open>startUtc\<close>, each with the
  fields of its row, and its bands: no row of the wedding is missing and no other row
  is there.
\<close>

theorem publish_conflict:
  assumes "wedding_findUnique d wid = Some w" and "w_timelineVersion w \<noteq> bv"
  shows "(let snap = getFullTimeline now tzdb d wid w in
          PUT now tzdb d wid bv ops
            = ((409, ConflictBody ''Version conflict'' (w_timelineVersion w) snap), d)
        \<and> tj_version snap = w_timelineVersion w
        \<and> tj_venueTimezone snap = w_venueTimezone w
        \<and> tj_weddingDate snap = w_weddingDate w
        \<and> tj_windowStartUtc snap
            = windowStartUtc (getTimelineWindow now (tzdb (w_venueTimezone w)) (w_weddingDate w))
        \<and> tj_windowEndUtc snap
            = windowEndUtc (getTimelineWindow now (tzdb (w_venueTimezone w)) (w_weddingDate w))
        \<and> tj_lanes snap
            = map (\<lambda>lane. \<lparr>lj_id = l_id lane, lj_weddingId = l_weddingId lane,
                            lj_name = l_name lane, lj_type = l_type lane,
                            lj_owner = \<lparr>or_id = l_ownerId lane, or_type = l_ownerType lane,
                                        or_displayName = l_ownerName lane\<rparr>,
                            lj_sortOrder = l_sortOrder lane\<rparr>)
                (sort_key l_sortOrder (filter (\<lambda>l. l_weddingId l = wid) (lanes d)))
        \<and> tj_events snap
            = map (\<lambda>event. \<lparr>ej_id = e_id event, ej_weddingId = e_weddingId event,
                             ej_title = e_title event, ej_startUtc = e_startUtc event,
                             ej_endUtc = e_endUtc event, ej_laneId = e_laneId event,
                             ej_category = e_category event,
                             ej_assignedOwner = \<lparr>or_id = e_assignedOwnerId event,
                                                 or_type = e_assignedOwnerType event,
                                                 or_displayName = e_assignedOwnerName event\<rparr>,
                             ej_status = e_status event, ej_locked = e_locked event,
                             ej_notes = e_notes event\<rparr>)
                (sort_key e_startUtc (filter (\<lambda>e. e_weddingId e = wid) (events d)))
        \<and> tj_bands snap = filter (\<lambda>b. b_weddingId b = wid) (bands d)
        \<and> sorted (map lj_sortOrder (tj_lanes snap))
        \<and> sorted (map ej_startUtc (tj_events snap))
        \<and> set (map lj_id (tj_lanes snap)) = l_id ` {l \<in> set (lanes d). l_weddingId l = wid}
        \<and> set (map ej_id (tj_events snap)) = e_id ` {e \<in> set (events d). e_weddingId e = wid}
        \<and> length (tj_lanes snap) = length (filter (\<lambda>l. l_weddingId l = wid) (lanes d))
        \<and> length (tj_events snap) = length (filter (\<lambda>e. e_weddingId e = wid) (events d)))"
proof -
  have put: "PUT now tzdb d wid bv ops
             = ((409, ConflictBody ''Version conflict'' (w_timelineVersion w)
                       (getFullTimeline now tzdb d wid w)), d)"
    using assms by (simp add: PUT_def)
  have sl: "sorted (map l_sortOrder (sort_key l_sortOrder (filter (\<lambda>l. l_weddingId l = wid) (lanes d))))"
    by (rule sorted_sort_key)
  have se: "sorted (map e_startUtc (sort_key e_startUtc (filter (\<lambda>e. e_weddingId e = wid) (events d))))"
    by (rule sorted_sort_key)
  show ?thesis
    using put sl se
    by (auto simp: Let_def getFullTimeline_def comp_def image_iff)
qed

text \<open>
  The scenario of the specification, in the state with two weddings: the canonical
  version of \<open>w1\<close> is 4 and a client publishes against version 3. The body holds the
  lane and the event of \<open>w1\<close> and nothing of \<open>w2\<close>.
\<close>

theorem publish_conflict_witness:
  "wedding_findUnique example_db2 ''w1'' = Some (hd (weddings example_db))
   \<and> w_timelineVersion (hd (weddings example_db)) = 4
   \<and> PUT example_now example_tzdb example_db2 ''w1'' 3 [delete_event ''e1''] =
       ((409, ConflictBody ''Version conflict'' 4
          \<lparr>tj_version = 4, tj_venueTimezone = ''America/New_York'',
           tj_weddingDate = \<lparr>cd_year = 2026, cd_month = 10, cd_day = 17\<rparr>,
           tj_windowStartUtc = Some 1792220400000, tj_windowEndUtc = Some 1792306800000,
           tj_lanes = [\<lparr>lj_id = ''l1'', lj_weddingId = ''w1'', lj_name = ''Ceremony'',
                        lj_type = ''ceremony'',
                        lj_owner = \<lparr>or_id = ''system'', or_type = ''couple'',
                                    or_displayName = ''Couple''\<rparr>,
                        lj_sortOrder = 0\<rparr>],
           tj_events = [\<lparr>ej_id = ''e1'', ej_weddingId = ''w1'', ej_title = ''Vows'',
                         ej_startUtc = 1792263600000, ej_endUtc = 1792265400000,
                         ej_laneId = ''l1'', ej_category = ''ceremony'',
                         ej_assignedOwner = \<lparr>or_id = ''system'', or_type = ''couple'',
                                             or_displayName = ''Couple''\<rparr>,
                         ej_status = ''confirmed'', ej_locked = True, ej_notes = None\<rparr>],
           tj_bands = []\<rparr>),
        example_db2)"
proof -
  have a: "wedding_findUnique example_db2 ''w1'' = Some (hd (weddings example_db))"
    by (rule example_find2)
  have b: "w_timelineVersion (hd (weddings example_db)) = 4"
    by (simp add: example_wedding)
  have c: "w_timelineVersion (hd (weddings example_db)) \<noteq> 3"
    by (simp add: b)
  have snap: "getFullTimeline example_now example_tzdb example_db2 ''w1'' (hd (weddings example_db))
     = \<lparr>tj_version = 4, tj_venueTimezone = ''America/New_York'',
           tj_weddingDate = \<lparr>cd_year = 2026, cd_month = 10, cd_day = 17\<rparr>,
           tj_windowStartUtc = Some 1792220400000, tj_windowEndUtc = Some 1792306800000,
           tj_lanes = [\<lparr>lj_id = ''l1'', lj_weddingId = ''w1'', lj_name = ''Ceremony'',
                        lj_type = ''ceremony'',
                        lj_owner = \<lparr>or_id = ''system'', or_type = ''couple'',
                                    or_displayName = ''Couple''\<rparr>,
                        lj_sortOrder = 0\<rparr>],
           tj_events = [\<lparr>ej_id = ''e1'', ej_weddingId = ''w1'', ej_title = ''Vows'',
                         ej_startUtc = 1792263600000, ej_endUtc = 1792265400000,
                         ej_laneId = ''l1'', ej_category = ''ceremony'',
                         ej_assignedOwner = \<lparr>or_id = ''system'', or_type = ''couple'',
                                             or_displayName = ''Couple''\<rparr>,
                         ej_status = ''confirmed'', ej_locked = True, ej_notes = None\<rparr>],
           tj_bands = []\<rparr>"
    by (simp add: getFullTimeline_def example_wedding example_window)
       (simp add: example_db2_def example_db_def)
  show ?thesis
    using publish_conflict [OF a c, of example_now example_tzdb "[delete_event ''e1'']"] a b
    by (simp add: Let_def snap)
qed

text \<open>No patch operation touches the weddings (the version counter) or the bands.\<close>

lemma applyPatchOp_weddings:
  "weddings (fst (applyPatchOp wid op ws we d)) = weddings d
   \<and> bands (fst (applyPatchOp wid op ws we d)) = bands d"
  by (cases op)
     (simp_all add: timelineEvent_create_def timelineEvent_update_def
        timelineEvent_update_laneId_def timelineEvent_delete_def
        timelineEvent_deleteMany_lane_def timelineLane_create_def timelineLane_update_def
        timelineLane_delete_def prisma_text_def Let_def split: option.splits text_or_owner.splits)

lemma applyPatchOps_weddings:
  "weddings (fst (applyPatchOps wid ops ws we d)) = weddings d
   \<and> bands (fst (applyPatchOps wid ops ws we d)) = bands d"
proof (induction ops arbitrary: d)
  case Nil
  then show ?case by simp
next
  case (Cons op ops)
  obtain d1 r where o: "applyPatchOp wid op ws we d = (d1, r)"
    by (cases "applyPatchOp wid op ws we d")
  have w: "weddings d1 = weddings d \<and> bands d1 = bands d"
    using applyPatchOp_weddings [of wid op ws we d] o by simp
  show ?case
  proof (cases r)
    case None
    with o w Cons.IH [of d1] show ?thesis by simp
  next
    case (Some e)
    with o w show ?thesis by simp
  qed
qed

lemma applyPatchOps_append:
  "applyPatchOps wid (pre @ rest) ws we d =
     (case applyPatchOps wid pre ws we d of
        (d1, Some err) \<Rightarrow> (d1, Some err)
      | (d1, None) \<Rightarrow> applyPatchOps wid rest ws we d1)"
  by (induction pre arbitrary: d) (auto split: prod.splits option.splits)

text \<open>
  An operation that throws has left the state as it found it; only \<^verbatim>\<open>delete_lane\<close>,
  which makes two calls, may have removed the events of the lane before the second
  call throws.
\<close>

lemma applyPatchOp_failure_state:
  assumes "applyPatchOp wid op ws we d = (df, Some err)"
  shows "lanes df = lanes d
       \<and> (case op of delete_lane lid \<Rightarrow> events df = filter (\<lambda>e. e_laneId e \<noteq> lid) (events d)
           | _ \<Rightarrow> df = d)"
  using assms
  by (cases op)
     (auto simp: timelineEvent_create_def timelineEvent_update_def
        timelineEvent_update_laneId_def timelineEvent_delete_def
        timelineEvent_deleteMany_lane_def timelineLane_create_def timelineLane_update_def
        timelineLane_delete_def prisma_text_def Let_def
        split: if_splits option.splits text_or_owner.splits)

text \<open>A publish at the current version whose operations throw after a prefix that succeeds.\<close>

lemma PUT_fails_after_prefix:
  assumes "wedding_findUnique d wid = Some w"
    and "w_timelineVersion w = bv"
    and "ws = new_Date (windowStartUtc
                (getTimelineWindow now (tzdb (w_venueTimezone w)) (w_weddingDate w)))"
    and "we = new_Date (windowEndUtc
                (getTimelineWindow now (tzdb (w_venueTimezone w)) (w_weddingDate w)))"
    and "applyPatchOps wid pre ws we d = (dp, None)"
    and "applyPatchOp wid op ws we dp = (df, Some err)"
  shows "PUT now tzdb d wid bv (pre @ op # post)
           = ((500, ErrorBody ''Failed to update timeline''), df)
       \<and> weddings df = weddings d \<and> bands df = bands d
       \<and> wedding_findUnique df wid = Some w"
proof -
  have run: "applyPatchOps wid (pre @ op # post) ws we d = (df, Some err)"
    using assms(5,6) by (simp add: applyPatchOps_append)
  have put: "PUT now tzdb d wid bv (pre @ op # post)
             = ((500, ErrorBody ''Failed to update timeline''), df)"
    using assms(1,2) run by (simp add: PUT_def Let_def assms(3,4))
  have wp: "weddings dp = weddings d \<and> bands dp = bands d"
    using applyPatchOps_weddings [of wid pre ws we d] assms(5) by simp
  have wf: "weddings df = weddings dp \<and> bands df = bands dp"
    using applyPatchOp_weddings [of wid op ws we dp] assms(6) by simp
  have fu: "wedding_findUnique df wid = Some w"
    using assms(1) wp wf by (simp add: wedding_findUnique_def)
  show ?thesis
    using put wp wf fu by simp
qed

lemma example_update_title:
  "applyPatchOps ''w1'' [update_event_title ''e1'' ''First look''] 1792220400000 1792306800000
     example_db
   = (example_db\<lparr>events := [(hd (events example_db))\<lparr>e_title := ''First look''\<rparr>]\<rparr>, None)"
  by (simp add: timelineEvent_update_def example_db_def)

text \<open>
  C1, as stated, fails: the route applies the operations one call after the other,
  outside any transaction. A publish at the current version whose first operation
  renames an event and whose second deletes an unknown event is answered 500, and the
  event keeps its new title.
\<close>

theorem publish_not_atomic_counterexample:
  "wedding_findUnique example_db ''w1'' = Some (hd (weddings example_db))
   \<and> w_timelineVersion (hd (weddings example_db)) = 4
   \<and> applyPatchOp ''w1'' (delete_event ''missing'') 1792220400000 1792306800000
        (example_db\<lparr>events := [(hd (events example_db))\<lparr>e_title := ''First look''\<rparr>]\<rparr>)
       = (example_db\<lparr>events := [(hd (events example_db))\<lparr>e_title := ''First look''\<rparr>]\<rparr>,
          Some RecordNotFound)
   \<and> fst (PUT example_now example_tzdb example_db ''w1'' 4
            [update_event_title ''e1'' ''First look'', delete_event ''missing''])
       = (500, ErrorBody ''Failed to update timeline'')
   \<and> map e_title (events example_db) = [''Vows'']
   \<and> map e_title (events (snd (PUT example_now example_tzdb example_db ''w1'' 4
            [update_event_title ''e1'' ''First look'', delete_event ''missing''])))
       = [''First look'']
   \<and> events (snd (PUT example_now example_tzdb example_db ''w1'' 4
            [update_event_title ''e1'' ''First look'', delete_event ''missing'']))
       \<noteq> events example_db"
proof -
  have run: "applyPatchOps ''w1'' [update_event_title ''e1'' ''First look'', delete_event ''missing'']
               1792220400000 1792306800000 example_db
             = (example_db\<lparr>events := [(hd (events example_db))\<lparr>e_title := ''First look''\<rparr>]\<rparr>,
                Some RecordNotFound)"
    by (simp add: timelineEvent_update_def timelineEvent_delete_def example_db_def)
  have put: "PUT example_now example_tzdb example_db ''w1'' 4
               [update_event_title ''e1'' ''First look'', delete_event ''missing'']
             = ((500, ErrorBody ''Failed to update timeline''),
                example_db\<lparr>events := [(hd (events example_db))\<lparr>e_title := ''First look''\<rparr>]\<rparr>)"
    by (simp add: PUT_def example_find example_wedding [symmetric] example_bounds run Let_def
        del: applyPatchOps.simps)
       (simp add: example_wedding)
  show ?thesis
    unfolding put
    by (simp add: example_find) (simp add: example_db_def timelineEvent_delete_def)
qed

text \<open>
  C1, amended. When the version matches and an operation of the sequence throws, the
  publish is answered 500, the weddings table and with it \<^verbatim>\<open>timelineVersion\<close> is as
  before, the operations after the failing one are not applied, and the operations
  before it stay applied: lanes and events are those the prefix has left (a failing
  \<^verbatim>\<open>delete_lane\<close> has also removed the events that named the lane).
\<close>

theorem failed_publish_keeps_prefix:
  assumes "wedding_findUnique d wid = Some w"
    and "w_timelineVersion w = bv"
    and "ws = new_Date (windowStartUtc
                (getTimelineWindow now (tzdb (w_venueTimezone w)) (w_weddingDate w)))"
    and "we = new_Date (windowEndUtc
                (getTimelineWindow now (tzdb (w_venueTimezone w)) (w_weddingDate w)))"
    and "applyPatchOps wid pre ws we d = (dp, None)"
    and "applyPatchOp wid op ws we dp = (df, Some err)"
  shows "PUT now tzdb d wid bv (pre @ op # post)
           = ((500, ErrorBody ''Failed to update timeline''), df)
       \<and> weddings df = weddings d
       \<and> wedding_findUnique df wid = Some w
       \<and> bands df = bands d
       \<and> lanes df = lanes dp
       \<and> (case op of delete_lane lid \<Rightarrow> events df = filter (\<lambda>e. e_laneId e \<noteq> lid) (events dp)
           | _ \<Rightarrow> df = dp)"
  using PUT_fails_after_prefix [where now = now and tzdb = tzdb and post = post, OF assms]
    applyPatchOp_failure_state [OF assms(6)]
  by simp

text \<open>The example state, with a rename before the failing delete and an operation after it.\<close>

theorem failed_publish_keeps_prefix_witness:
  "wedding_findUnique example_db ''w1'' = Some (hd (weddings example_db))
   \<and> w_timelineVersion (hd (weddings example_db)) = 4
   \<and> PUT example_now example_tzdb example_db ''w1'' 4
        ([update_event_title ''e1'' ''First look''] @ delete_event ''missing'' # [delete_lane ''l1''])
       = ((500, ErrorBody ''Failed to update timeline''),
          example_db\<lparr>events := [(hd (events example_db))\<lparr>e_title := ''First look''\<rparr>]\<rparr>)"
proof -
  let ?dp = "example_db\<lparr>events := [(hd (events example_db))\<lparr>e_title := ''First look''\<rparr>]\<rparr>"
  have a: "wedding_findUnique example_db ''w1'' = Some (hd (weddings example_db))"
    by (rule example_find)
  have b: "w_timelineVersion (hd (weddings example_db)) = 4"
    by (simp add: example_wedding)
  have f: "applyPatchOp ''w1'' (delete_event ''missing'') 1792220400000 1792306800000 ?dp
           = (?dp, Some RecordNotFound)"
    by (simp add: timelineEvent_delete_def example_db_def)
  show ?thesis
    using failed_publish_keeps_prefix
        [where now = example_now and tzdb = example_tzdb and post = "[delete_lane ''l1'']",
          OF a b example_bounds(1) [symmetric] example_bounds(2) [symmetric]
            example_update_title f]
      a b
    by simp
qed

lemma event_id_present: "ev \<in> set (events d) \<Longrightarrow> e_id ev \<in> set (map e_id (events d))"
  by simp

text \<open>
  C5, as stated, fails: the route never reads the \<^verbatim>\<open>locked\<close> flag. A publish that renames
  the locked event of the example is answered 200 and the event has the new title.
\<close>

theorem locked_event_edit_counterexample:
  "e_id (hd (events example_db)) = ''e1''
   \<and> e_locked (hd (events example_db))
   \<and> map e_title (events example_db) = [''Vows'']
   \<and> fst (fst (PUT example_now example_tzdb example_db ''w1'' 4
                  [update_event_title ''e1'' ''First look'']))
       = 200
   \<and> map e_title (events (snd (PUT example_now example_tzdb example_db ''w1'' 4
                                  [update_event_title ''e1'' ''First look''])))
       = [''First look'']
   \<and> map e_locked (events (snd (PUT example_now example_tzdb example_db ''w1'' 4
                                   [update_event_title ''e1'' ''First look''])))
       = [True]"
proof -
  have put: "snd (PUT example_now example_tzdb example_db ''w1'' 4
                    [update_event_title ''e1'' ''First look''])
             = example_db\<lparr>weddings := [(hd (weddings example_db))\<lparr>w_timelineVersion := 5\<rparr>],
                          events := [(hd (events example_db))\<lparr>e_title := ''First look''\<rparr>]\<rparr>
           \<and> fst (fst (PUT example_now example_tzdb example_db ''w1'' 4
                          [update_event_title ''e1'' ''First look'']))
             = 200"
    by (simp add: PUT_def example_find example_wedding [symmetric] example_bounds
          example_update_title Let_def del: applyPatchOps.simps)
       (simp add: wedding_findUnique_def wedding_increment_version_def example_db_def)
  show ?thesis
    by (simp add: put) (simp add: example_db_def)
qed

text \<open>
  C5, amended. For an event of the canonical state whose \<^verbatim>\<open>locked\<close> flag is true,
  \<^verbatim>\<open>update_event_title\<close> and \<^verbatim>\<open>update_event_time\<close> succeed and change the event (the times
  clamped and cut to the minute), \<^verbatim>\<open>update_event_lane\<close> succeeds when the lane exists,
  \<^verbatim>\<open>delete_event\<close> succeeds and removes the event; the updates leave the flag true.
  \<^verbatim>\<open>update_event_owner\<close> is rejected and leaves the state unchanged, not on account of
  the flag: Prisma refuses the \<^verbatim>\<open>OwnerRef\<close> for the text column, for any event.
\<close>

theorem locked_event_edits_are_applied:
  assumes "ev \<in> set (events d)" and "e_id ev = eid" and "e_locked ev"
  shows "applyPatchOp wid (update_event_title eid t) ws we d
           = (d\<lparr>events := map (\<lambda>x. if e_id x = eid then x\<lparr>e_title := t\<rparr> else x) (events d)\<rparr>, None)
       \<and> ev\<lparr>e_title := t\<rparr> \<in> set (events (fst (applyPatchOp wid (update_event_title eid t) ws we d)))
       \<and> applyPatchOp wid (update_event_time eid s e) ws we d
           = (d\<lparr>events := map (\<lambda>x. if e_id x = eid
                                     then x\<lparr>e_startUtc := setSeconds00 (if s < ws then ws else s),
                                            e_endUtc := setSeconds00 (if e > we then we else e)\<rparr>
                                     else x) (events d)\<rparr>, None)
       \<and> ev\<lparr>e_startUtc := setSeconds00 (if s < ws then ws else s),
             e_endUtc := setSeconds00 (if e > we then we else e)\<rparr>
           \<in> set (events (fst (applyPatchOp wid (update_event_time eid s e) ws we d)))
       \<and> (lid \<in> set (map l_id (lanes d)) \<longrightarrow>
            applyPatchOp wid (update_event_lane eid lid) ws we d
              = (d\<lparr>events := map (\<lambda>x. if e_id x = eid then x\<lparr>e_laneId := lid\<rparr> else x) (events d)\<rparr>,
                 None)
          \<and> ev\<lparr>e_laneId := lid\<rparr>
              \<in> set (events (fst (applyPatchOp wid (update_event_lane eid lid) ws we d))))
       \<and> applyPatchOp wid (delete_event eid) ws we d
           = (d\<lparr>events := filter (\<lambda>x. e_id x \<noteq> eid) (events d)\<rparr>, None)
       \<and> ev \<notin> set (events (fst (applyPatchOp wid (delete_event eid) ws we d)))
       \<and> applyPatchOp wid (update_event_owner eid ow) ws we d = (d, Some ValidationError)
       \<and> e_locked (ev\<lparr>e_title := t\<rparr>)
       \<and> e_locked (ev\<lparr>e_laneId := lid\<rparr>)
       \<and> e_locked (ev\<lparr>e_startUtc := setSeconds00 (if s < ws then ws else s),
                       e_endUtc := setSeconds00 (if e > we then we else e)\<rparr>)"
proof -
  have p: "eid \<in> set (map e_id (events d))"
    using event_id_present [OF assms(1)] assms(2) by simp
  have i: "\<And>f. f ev \<in> (\<lambda>x. if e_id x = eid then f x else x) ` set (events d)"
    using assms(1,2) by (rule_tac x = ev in image_eqI) simp_all
  have title: "applyPatchOp wid (update_event_title eid t) ws we d
           = (d\<lparr>events := map (\<lambda>x. if e_id x = eid then x\<lparr>e_title := t\<rparr> else x) (events d)\<rparr>, None)"
    using p by (simp add: timelineEvent_update_def)
  have owner: "applyPatchOp wid (update_event_owner eid ow) ws we d = (d, Some ValidationError)"
    by (simp add: prisma_text_def)
  have time: "applyPatchOp wid (update_event_time eid s e) ws we d
           = (d\<lparr>events := map (\<lambda>x. if e_id x = eid
                                     then x\<lparr>e_startUtc := setSeconds00 (if s < ws then ws else s),
                                            e_endUtc := setSeconds00 (if e > we then we else e)\<rparr>
                                     else x) (events d)\<rparr>, None)"
    using p by (simp add: timelineEvent_update_def Let_def)
  have lane: "lid \<in> set (map l_id (lanes d)) \<Longrightarrow>
            applyPatchOp wid (update_event_lane eid lid) ws we d
              = (d\<lparr>events := map (\<lambda>x. if e_id x = eid then x\<lparr>e_laneId := lid\<rparr> else x) (events d)\<rparr>,
                 None)"
    using p by (simp add: timelineEvent_update_laneId_def)
  have del: "applyPatchOp wid (delete_event eid) ws we d
           = (d\<lparr>events := filter (\<lambda>x. e_id x \<noteq> eid) (events d)\<rparr>, None)"
    using p by (simp add: timelineEvent_delete_def)
  have gone: "ev \<notin> set (filter (\<lambda>x. e_id x \<noteq> eid) (events d))"
    using assms(2) by simp
  show ?thesis
    unfolding title owner time del
    using lane i [of "\<lambda>x. x\<lparr>e_title := t\<rparr>"]
      i [of "\<lambda>x. x\<lparr>e_laneId := lid\<rparr>"]
      i [of "\<lambda>x. x\<lparr>e_startUtc := setSeconds00 (if s < ws then ws else s),
                    e_endUtc := setSeconds00 (if e > we then we else e)\<rparr>"]
      gone assms(3)
    by simp
qed

text \<open>The locked event of the example: renamed, moved, deleted, and given an owner.\<close>

theorem locked_event_edits_are_applied_witness:
  "hd (events example_db) \<in> set (events example_db)
   \<and> e_id (hd (events example_db)) = ''e1''
   \<and> e_locked (hd (events example_db))
   \<and> ''l1'' \<in> set (map l_id (lanes example_db))
   \<and> applyPatchOp ''w1'' (update_event_title ''e1'' ''First look'') 1792220400000 1792306800000
        example_db
       = (example_db\<lparr>events := [(hd (events example_db))\<lparr>e_title := ''First look''\<rparr>]\<rparr>, None)
   \<and> applyPatchOp ''w1'' (update_event_time ''e1'' 1792220395000 1792224030500) 1792220400000
        1792306800000 example_db
       = (example_db\<lparr>events := [(hd (events example_db))\<lparr>e_startUtc := 1792220400000,
                                                         e_endUtc := 1792224000000\<rparr>]\<rparr>, None)
   \<and> applyPatchOp ''w1'' (delete_event ''e1'') 1792220400000 1792306800000 example_db
       = (example_db\<lparr>events := []\<rparr>, None)
   \<and> applyPatchOp ''w1''
        (update_event_owner ''e1'' \<lparr>or_id = ''p1'', or_type = ''planner'', or_displayName = ''Ana''\<rparr>)
        1792220400000 1792306800000 example_db
       = (example_db, Some ValidationError)"
proof -
  have a: "hd (events example_db) \<in> set (events example_db)"
    and b: "e_id (hd (events example_db)) = ''e1''"
    and c: "e_locked (hd (events example_db))"
    and l: "''l1'' \<in> set (map l_id (lanes example_db))"
    by (simp_all add: example_db_def)
  have ev: "events example_db = [hd (events example_db)]"
    by (simp add: example_db_def)
  have m: "map (\<lambda>x. if e_id x = ''e1'' then f x else x) (events example_db)
           = [f (hd (events example_db))]" for f
    by (subst ev) (simp add: b)
  have fl: "filter (\<lambda>x. e_id x \<noteq> ''e1'') (events example_db) = []"
    by (subst ev) (simp add: b)
  show ?thesis
    using locked_event_edits_are_applied
      [OF a b c, of "''w1''" "''First look''" 1792220400000 1792306800000
        1792220395000 1792224030500 "''l1''"
        "\<lparr>or_id = ''p1'', or_type = ''planner'', or_displayName = ''Ana''\<rparr>"]
      a b c l
    by (simp add: m fl setSeconds00_def)
qed

lemma example2_events: "map e_id (events example_db2) = [''e1'', ''e9'']"
  by (simp add: example_db2_def example_db_def)

text \<open>
  C6, as stated, fails: the service deletes by \<^verbatim>\<open>id\<close> alone. In the state with two
  weddings the event \<open>e9\<close> of \<open>w2\<close> is absent from the timeline of \<open>w1\<close> and from a draft
  over it, where deleting it changes nothing; the same operation published for \<open>w1\<close> is
  answered 200 and deletes the event of \<open>w2\<close>.
\<close>

theorem delete_other_wedding_event_counterexample:
  "map ej_id (tj_events (getFullTimeline example_now example_tzdb example_db2 ''w1''
                           (hd (weddings example_db)))) = [''e1'']
   \<and> applyDraftToEvents
       [\<lparr>item_id = ''e1'', weddingId = ''w1'', title = ''Vows'', startUtc = 1792263600000,
          endUtc = 1792265400000, laneId = ''l1'', category = None, assignedOwner = None,
          status = None, locked = None, item_notes = None\<rparr>] [delete_event ''e9'']
       = [\<lparr>item_id = ''e1'', weddingId = ''w1'', title = ''Vows'', startUtc = 1792263600000,
          endUtc = 1792265400000, laneId = ''l1'', category = None, assignedOwner = None,
          status = None, locked = None, item_notes = None\<rparr>]
   \<and> wedding_findUnique example_db2 ''w1'' = Some (hd (weddings example_db))
   \<and> w_timelineVersion (hd (weddings example_db)) = 4
   \<and> map e_id (events example_db2) = [''e1'', ''e9'']
   \<and> map e_weddingId (events example_db2) = [''w1'', ''w2'']
   \<and> fst (fst (PUT example_now example_tzdb example_db2 ''w1'' 4 [delete_event ''e9''])) = 200
   \<and> map e_id (events (snd (PUT example_now example_tzdb example_db2 ''w1'' 4
                               [delete_event ''e9'']))) = [''e1'']"
proof -
  have run: "applyPatchOps ''w1'' [delete_event ''e9''] 1792220400000 1792306800000 example_db2
             = (example_db2\<lparr>events := events example_db\<rparr>, None)"
    by (simp add: timelineEvent_delete_def) (simp add: example_db2_def example_db_def)
  have put: "fst (fst (PUT example_now example_tzdb example_db2 ''w1'' 4 [delete_event ''e9''])) = 200
           \<and> events (snd (PUT example_now example_tzdb example_db2 ''w1'' 4 [delete_event ''e9'']))
             = events example_db"
    by (simp add: PUT_def example_find2 example_wedding [symmetric] example_bounds run Let_def
          del: applyPatchOps.simps)
       (simp add: wedding_findUnique_def wedding_increment_version_def example_db2_def example_db_def)
  have snap: "map ej_id (tj_events (getFullTimeline example_now example_tzdb example_db2 ''w1''
                           (hd (weddings example_db)))) = [''e1'']"
    by (simp add: getFullTimeline_def Let_def) (simp add: example_db2_def example_db_def)
  show ?thesis
    by (simp add: put snap example_find2 example2_events)
       (simp add: example_db2_def example_db_def)
qed

text \<open>
  C6, amended. For an event id that is not in the list, \<^verbatim>\<open>delete_event\<close> at the draft
  layer returns the list unchanged. For an event id that is in no row of the canonical
  events table, the same operation at the service throws Prisma's record-not-found and
  leaves the state as it is; a publish at the current version that meets it after a
  prefix of operations that succeed is answered with the status 500 and the body that
  an operation failing for any other reason gets too (the answer does not name the
  kind of error), the version is not incremented, and the state is the one the prefix
  has left.
\<close>

theorem delete_missing_event_asymmetry:
  "(eid \<notin> set (map item_id evs) \<longrightarrow> applyDraftToEvents evs [delete_event eid] = evs)
   \<and> (eid \<notin> set (map e_id (events dp)) \<longrightarrow>
        applyPatchOp wid (delete_event eid) ws we dp = (dp, Some RecordNotFound)
      \<and> (wedding_findUnique d wid = Some w \<and> w_timelineVersion w = bv
         \<and> ws = new_Date (windowStartUtc
                   (getTimelineWindow now (tzdb (w_venueTimezone w)) (w_weddingDate w)))
         \<and> we = new_Date (windowEndUtc
                   (getTimelineWindow now (tzdb (w_venueTimezone w)) (w_weddingDate w)))
         \<and> applyPatchOps wid pre ws we d = (dp, None) \<longrightarrow>
           PUT now tzdb d wid bv (pre @ delete_event eid # post)
             = ((500, ErrorBody ''Failed to update timeline''), dp)
         \<and> wedding_findUnique dp wid = Some w
         \<and> (\<forall>op df err. applyPatchOp wid op ws we dp = (df, Some err) \<longrightarrow>
               fst (PUT now tzdb d wid bv (pre @ op # post))
                 = (500, ErrorBody ''Failed to update timeline''))))"
proof (intro conjI impI allI)
  assume "eid \<notin> set (map item_id evs)"
  then have "filter (\<lambda>e. item_id e \<noteq> eid) evs = evs"
    by (induction evs) auto
  then show "applyDraftToEvents evs [delete_event eid] = evs"
    by simp
next
  assume a: "eid \<notin> set (map e_id (events dp))"
  then show f: "applyPatchOp wid (delete_event eid) ws we dp = (dp, Some RecordNotFound)"
    by (simp add: timelineEvent_delete_def)
  assume h: "wedding_findUnique d wid = Some w \<and> w_timelineVersion w = bv
         \<and> ws = new_Date (windowStartUtc
                   (getTimelineWindow now (tzdb (w_venueTimezone w)) (w_weddingDate w)))
         \<and> we = new_Date (windowEndUtc
                   (getTimelineWindow now (tzdb (w_venueTimezone w)) (w_weddingDate w)))
         \<and> applyPatchOps wid pre ws we d = (dp, None)"
  have r: "PUT now tzdb d wid bv (pre @ delete_event eid # post)
             = ((500, ErrorBody ''Failed to update timeline''), dp)
           \<and> weddings dp = weddings d \<and> bands dp = bands d
           \<and> wedding_findUnique dp wid = Some w"
  proof -
    from h have h1: "wedding_findUnique d wid = Some w" and h2: "w_timelineVersion w = bv"
      and h3: "ws = new_Date (windowStartUtc
                 (getTimelineWindow now (tzdb (w_venueTimezone w)) (w_weddingDate w)))"
      and h4: "we = new_Date (windowEndUtc
                 (getTimelineWindow now (tzdb (w_venueTimezone w)) (w_weddingDate w)))"
      and h5: "applyPatchOps wid pre ws we d = (dp, None)"
      by blast+
    show ?thesis
      by (rule PUT_fails_after_prefix [where now = now and tzdb = tzdb and post = post,
            OF h1 h2 h3 h4 h5 f])
  qed
  from r show "PUT now tzdb d wid bv (pre @ delete_event eid # post)
             = ((500, ErrorBody ''Failed to update timeline''), dp)"
    by simp
  from r show "wedding_findUnique dp wid = Some w"
    by simp
  fix op df err
  assume g: "applyPatchOp wid op ws we dp = (df, Some err)"
  from h have h1: "wedding_findUnique d wid = Some w" and h2: "w_timelineVersion w = bv"
    and h3: "ws = new_Date (windowStartUtc
               (getTimelineWindow now (tzdb (w_venueTimezone w)) (w_weddingDate w)))"
    and h4: "we = new_Date (windowEndUtc
               (getTimelineWindow now (tzdb (w_venueTimezone w)) (w_weddingDate w)))"
    and h5: "applyPatchOps wid pre ws we d = (dp, None)"
    by blast+
  show "fst (PUT now tzdb d wid bv (pre @ op # post))
          = (500, ErrorBody ''Failed to update timeline'')"
    using PUT_fails_after_prefix [where now = now and tzdb = tzdb and post = post,
        OF h1 h2 h3 h4 h5 g]
    by simp
qed

text \<open>
  Deleting the event \<open>e1\<close> twice: the draft stays empty; the publish deletes the event,
  fails at the second delete and does not reach the operation after it.
\<close>

lemma example_delete_e1:
  "applyPatchOps ''w1'' [delete_event ''e1''] 1792220400000 1792306800000 example_db
   = (example_db\<lparr>events := []\<rparr>, None)"
  by (simp add: timelineEvent_delete_def example_db_def)

theorem delete_missing_event_asymmetry_witness:
  "applyDraftToEvents [] [delete_event ''e1''] = []
   \<and> events (example_db\<lparr>events := []\<rparr>) = []
   \<and> wedding_findUnique example_db ''w1'' = Some (hd (weddings example_db))
   \<and> w_timelineVersion (hd (weddings example_db)) = 4
   \<and> applyPatchOps ''w1'' [delete_event ''e1''] 1792220400000 1792306800000 example_db
       = (example_db\<lparr>events := []\<rparr>, None)
   \<and> applyPatchOp ''w1'' (delete_event ''e1'') 1792220400000 1792306800000
        (example_db\<lparr>events := []\<rparr>)
       = (example_db\<lparr>events := []\<rparr>, Some RecordNotFound)
   \<and> PUT example_now example_tzdb example_db ''w1'' 4
        ([delete_event ''e1''] @ delete_event ''e1'' # [update_event_title ''e1'' ''First look''])
       = ((500, ErrorBody ''Failed to update timeline''), example_db\<lparr>events := []\<rparr>)"
proof -
  have a: "''e1'' \<notin> set (map e_id (events (example_db\<lparr>events := []\<rparr>)))"
    and a': "''e1'' \<notin> set (map item_id ([] :: TimelineEventItem list))"
    by simp_all
  have b: "w_timelineVersion (hd (weddings example_db)) = 4"
    by (simp add: example_wedding)
  show ?thesis
    using delete_missing_event_asymmetry
      [where eid = "''e1''" and evs = "[]" and dp = "example_db\<lparr>events := []\<rparr>"
         and wid = "''w1''" and ws = 1792220400000 and we = 1792306800000
         and d = example_db and w = "hd (weddings example_db)" and bv = 4
         and now = example_now and tzdb = example_tzdb and pre = "[delete_event ''e1'']"
         and post = "[update_event_title ''e1'' ''First look'']"]
      a a' b example_find example_bounds example_delete_e1
    by simp
qed

end
